theory Spec2Isabelle
  imports
    Complex_Main
    "HOL-Library.Char_ord"
    "HOL-Library.List_Lexorder"
    "HOL-Library.Product_Lexorder"
    "HOL-Library.Multiset"
begin

section \<open>Values of the source language\<close>

subsection \<open>Floating-point values\<close>

text \<open>
  The pipeline of \<^verbatim>\<open>mexico_city_data_compiler.py\<close> stores every metric as a NumPy
  \<^verbatim>\<open>float64\<close> and uses \<^verbatim>\<open>np.nan\<close> as its "no value" marker. The type \<open>fl\<close> keeps the
  four kinds of value the code can tell apart: not-a-number, a finite number and the two
  infinities. A finite value is an exact real: rounding, overflow to an infinity and the
  sign of zero are not represented (a zero divisor counts as \<open>+0.0\<close>). The special values
  follow IEEE 754, which is what NumPy scalars compute (a division by zero gives an
  infinity or not-a-number with a warning; it does not raise).
\<close>

datatype fl = NaN | Fin real | PInf | NInf

definition isnan :: "fl \<Rightarrow> bool" where
  "isnan x = (x = NaN)"

fun fneg :: "fl \<Rightarrow> fl" where
  "fneg NaN = NaN"
| "fneg (Fin x) = Fin (- x)"
| "fneg PInf = NInf"
| "fneg NInf = PInf"

fun fadd :: "fl \<Rightarrow> fl \<Rightarrow> fl" where
  "fadd NaN _ = NaN"
| "fadd _ NaN = NaN"
| "fadd (Fin x) (Fin y) = Fin (x + y)"
| "fadd (Fin _) PInf = PInf"
| "fadd (Fin _) NInf = NInf"
| "fadd PInf NInf = NaN"
| "fadd PInf _ = PInf"
| "fadd NInf PInf = NaN"
| "fadd NInf _ = NInf"

definition fsub :: "fl \<Rightarrow> fl \<Rightarrow> fl" where
  "fsub a b = fadd a (fneg b)"

text \<open>The sign of a non-NaN value: \<open>1\<close>, \<open>0\<close> or \<open>-1\<close>.\<close>

fun fsgn :: "fl \<Rightarrow> int" where
  "fsgn NaN = 0"
| "fsgn (Fin x) = (if 0 < x then 1 else if x < 0 then - 1 else 0)"
| "fsgn PInf = 1"
| "fsgn NInf = - 1"

definition inf_of_sign :: "int \<Rightarrow> fl" where
  "inf_of_sign s = (if 0 < s then PInf else if s < 0 then NInf else NaN)"

fun fmul :: "fl \<Rightarrow> fl \<Rightarrow> fl" where
  "fmul NaN _ = NaN"
| "fmul _ NaN = NaN"
| "fmul (Fin x) (Fin y) = Fin (x * y)"
| "fmul a b = inf_of_sign (fsgn a * fsgn b)"

fun fdiv :: "fl \<Rightarrow> fl \<Rightarrow> fl" where
  "fdiv NaN _ = NaN"
| "fdiv _ NaN = NaN"
| "fdiv (Fin x) (Fin y) = (if y = 0 then inf_of_sign (fsgn (Fin x)) else Fin (x / y))"
| "fdiv (Fin _) _ = Fin 0"
| "fdiv PInf (Fin y) = (if y < 0 then NInf else PInf)"
| "fdiv NInf (Fin y) = (if y < 0 then PInf else NInf)"
| "fdiv _ _ = NaN"

text \<open>The comparison \<^verbatim>\<open>x > 0\<close>; every comparison with not-a-number is false.\<close>

fun fgt0 :: "fl \<Rightarrow> bool" where
  "fgt0 NaN = False"
| "fgt0 (Fin x) = (0 < x)"
| "fgt0 PInf = True"
| "fgt0 NInf = False"

subsection \<open>Exceptions\<close>

text \<open>The exceptions the modelled code can raise; a function that can raise returns
  \<open>py_error + 'a\<close>, with \<open>Inl\<close> for the exception.\<close>

datatype py_error = KeyError | IndexError | ValueError | TypeError | OSError

subsection \<open>Strings\<close>

text \<open>
  The source files are opened with \<^verbatim>\<open>encoding='latin-1'\<close>, so every character of a
  parsed text is one code point below 256: a Python \<^verbatim>\<open>str\<close> is a \<open>string\<close>, one
  \<open>char\<close> per code point.

  \<^verbatim>\<open>s.replace(old, new)\<close> scans from the left and replaces every non-overlapping
  occurrence of a non-empty \<open>old\<close>.
\<close>

definition startswith :: "string \<Rightarrow> string \<Rightarrow> bool" where
  "startswith s p = (take (length p) s = p)"

fun py_replace :: "string \<Rightarrow> string \<Rightarrow> string \<Rightarrow> string" where
  "py_replace old new [] = []"
| "py_replace old new (c # cs) =
     (if old \<noteq> [] \<and> startswith (c # cs) old
      then new @ py_replace old new (drop (length old) (c # cs))
      else c # py_replace old new cs)"

text \<open>The substring test \<^verbatim>\<open>sub in s\<close>.\<close>

fun contains :: "string \<Rightarrow> string \<Rightarrow> bool" where
  "contains [] sub = (sub = [])"
| "contains (c # cs) sub = (startswith (c # cs) sub \<or> contains cs sub)"

subsection \<open>Series and dictionaries\<close>

text \<open>
  A \<^verbatim>\<open>pd.Series(values, index=time_points)\<close> is read through \<^verbatim>\<open>.get(tp, np.nan)\<close>
  only; it is the map from its index labels to its values, the labels taken pairwise
  distinct (a TimePoint names one column of the source table). A \<^verbatim>\<open>dict\<close> from city
  names to series is a map as well; \<^verbatim>\<open>d.get(city, pd.Series())\<close> falls back to the empty
  series.
\<close>

type_synonym series = "string \<rightharpoonup> fl"
type_synonym city_table = "string \<rightharpoonup> series"

definition series_get :: "series \<Rightarrow> string \<Rightarrow> fl" where
  "series_get s tp = (case s tp of Some v \<Rightarrow> v | None \<Rightarrow> NaN)"

definition dict_get :: "city_table \<Rightarrow> string \<Rightarrow> series" where
  "dict_get d city = (case d city of Some s \<Rightarrow> s | None \<Rightarrow> Map.empty)"

subsection \<open>Digits\<close>

text \<open>Decimal digits and the number they write (\<^verbatim>\<open>int\<close> on a digit string).\<close>

definition is_digit :: "char \<Rightarrow> bool" where
  "is_digit c = (c \<in> set ''0123456789'')"

definition digit_val :: "char \<Rightarrow> int" where
  "digit_val c = int (of_char c) - 48"

definition int_of_digits :: "string \<Rightarrow> int" where
  "int_of_digits ds = foldl (\<lambda>a c. 10 * a + digit_val c) 0 ds"

section \<open>The tabular-source parser: \<^verbatim>\<open>read_excel_html_table\<close>\<close>

subsection \<open>Text of a cell\<close>

text \<open>
  \<^verbatim>\<open>str.strip()\<close> and \<^verbatim>\<open>str.split()\<close> cut at whitespace, which below code point 256 is
  tab to carriage return, the four separators 0x1C to 0x1F, the space, 0x85 and 0xA0.
\<close>

definition py_isspace :: "char \<Rightarrow> bool" where
  "py_isspace c =
     (let n = (of_char c :: nat)
      in (9 \<le> n \<and> n \<le> 13) \<or> (28 \<le> n \<and> n \<le> 32) \<or> n = 133 \<or> n = 160)"

definition strip :: "string \<Rightarrow> string" where
  "strip s = rev (dropWhile py_isspace (rev (dropWhile py_isspace s)))"

text \<open>\<^verbatim>\<open>s.split()[0]\<close>: the first run of characters that are not whitespace;
  \<^verbatim>\<open>IndexError\<close> when there is none.\<close>

definition split_first :: "string \<Rightarrow> py_error + string" where
  "split_first s =
     (case dropWhile py_isspace s of
        [] \<Rightarrow> Inl IndexError
      | t \<Rightarrow> Inr (takeWhile (\<lambda>c. \<not> py_isspace c) t))"

text \<open>The reserved label of the aggregate row: \<^verbatim>\<open>Areas metropolitanas\<close> with an
  acute accent on its first letter (code point 0xC1).\<close>

definition areas_metropolitanas :: string where
  "areas_metropolitanas = CHR 0xC1 # ''reas metropolitanas''"

subsection \<open>\<^verbatim>\<open>float(text)\<close>\<close>

text \<open>
  Python's \<^verbatim>\<open>float\<close> on a string: whitespace around the text is dropped; then comes an
  optional sign and either \<^verbatim>\<open>inf\<close>, \<^verbatim>\<open>infinity\<close> or \<^verbatim>\<open>nan\<close> in any letter case, or a
  decimal number: digits with an optional point and an optional exponent, where digits
  may be grouped by single underscores. Anything else raises \<^verbatim>\<open>ValueError\<close>. The value is
  the exact decimal, not its nearest \<^verbatim>\<open>float64\<close>.
\<close>

fun digitpart_rest :: "string \<Rightarrow> string \<times> string" where
  "digitpart_rest [] = ([], [])"
| "digitpart_rest [c] = (if is_digit c then ([c], []) else ([], [c]))"
| "digitpart_rest (c # d # cs) =
     (if is_digit c then (let (ds, r) = digitpart_rest (d # cs) in (c # ds, r))
      else if c = CHR ''_'' \<and> is_digit d then (let (ds, r) = digitpart_rest cs in (d # ds, r))
      else ([], c # d # cs))"

text \<open>The longest digit part at the start of a text, without its underscores, and what
  follows it.\<close>

definition digitpart :: "string \<Rightarrow> (string \<times> string) option" where
  "digitpart s =
     (case s of
        [] \<Rightarrow> None
      | c # cs \<Rightarrow> if is_digit c then Some (let (ds, r) = digitpart_rest cs in (c # ds, r)) else None)"

text \<open>The integer digits, the fraction digits and the rest.\<close>

definition number_part :: "string \<Rightarrow> (string \<times> string \<times> string) option" where
  "number_part s =
     (case digitpart s of
        Some (ip, r) \<Rightarrow>
          (case r of
             c # r' \<Rightarrow>
               if c = CHR ''.''
               then (case digitpart r' of Some (fp, r'') \<Rightarrow> Some (ip, fp, r'') | None \<Rightarrow> Some (ip, [], r'))
               else Some (ip, [], r)
           | [] \<Rightarrow> Some (ip, [], r))
      | None \<Rightarrow>
          (case s of
             c # r' \<Rightarrow>
               if c = CHR ''.''
               then (case digitpart r' of Some (fp, r'') \<Rightarrow> Some ([], fp, r'') | None \<Rightarrow> None)
               else None
           | [] \<Rightarrow> None))"

text \<open>The exponent after the number: absent, or \<^verbatim>\<open>e\<close> with an optional sign and a
  digit part up to the end of the text.\<close>

definition exponent_part :: "string \<Rightarrow> int option" where
  "exponent_part r =
     (case r of
        [] \<Rightarrow> Some 0
      | c # r' \<Rightarrow>
          if c = CHR ''e'' \<or> c = CHR ''E''
          then
            (let (neg, r'') =
               (case r' of
                  [] \<Rightarrow> (False, r')
                | x # xs \<Rightarrow> if x = CHR ''-'' then (True, xs) else if x = CHR ''+'' then (False, xs) else (False, r'))
             in case digitpart r'' of
                  Some (ds, []) \<Rightarrow> Some (if neg then - int_of_digits ds else int_of_digits ds)
                | _ \<Rightarrow> None)
          else None)"

definition scale10 :: "int \<Rightarrow> int \<Rightarrow> real" where
  "scale10 m k = (if 0 \<le> k then of_int m * 10 ^ nat k else of_int m / 10 ^ nat (- k))"

definition to_lower :: "char \<Rightarrow> char" where
  "to_lower c =
     (let n = (of_char c :: nat) in if 65 \<le> n \<and> n \<le> 90 then char_of (n + 32) else c)"

definition unsigned_float :: "string \<Rightarrow> py_error + fl" where
  "unsigned_float s =
     (if map to_lower s = ''inf'' \<or> map to_lower s = ''infinity'' then Inr PInf
      else if map to_lower s = ''nan'' then Inr NaN
      else
        case number_part s of
          None \<Rightarrow> Inl ValueError
        | Some (ip, fp, r) \<Rightarrow>
            (case exponent_part r of
               None \<Rightarrow> Inl ValueError
             | Some k \<Rightarrow> Inr (Fin (scale10 (int_of_digits (ip @ fp)) (k - int (length fp))))))"

definition py_float :: "string \<Rightarrow> py_error + fl" where
  "py_float text =
     (case strip text of
        [] \<Rightarrow> Inl ValueError
      | c # cs \<Rightarrow>
          if c = CHR ''-'' then (case unsigned_float cs of Inl e \<Rightarrow> Inl e | Inr v \<Rightarrow> Inr (fneg v))
          else if c = CHR ''+'' then unsigned_float cs
          else unsigned_float (c # cs))"

text \<open>
  One data cell (lines 66 to 73), on the stripped text of the cell. The handler catches
  \<^verbatim>\<open>ValueError\<close> and \<^verbatim>\<open>TypeError\<close>; any other exception would leave the loop.
\<close>

definition parse_cell :: "string \<Rightarrow> py_error + fl" where
  "parse_cell text =
     (if text = ''No aplica'' then Inr NaN
      else
        case py_float (py_replace '','' ''.'' text) of
          Inr v \<Rightarrow> Inr v
        | Inl e \<Rightarrow> if e = ValueError \<or> e = TypeError then Inr NaN else Inl e)"

subsection \<open>The table\<close>

text \<open>
  The parser reads the file and takes the rows of its HTML table. Reading is outside the
  program; the model starts from its outcome: \<open>Inl e\<close> when opening or reading raises,
  and otherwise \<open>Inr rows\<close>, each row the \<^verbatim>\<open>.text\<close> of its \<^verbatim>\<open>td\<close> cells in order.

  The time points (lines 52 to 55): index \<open>i\<close> runs over the years; \<^verbatim>\<open>quarters[i]\<close> is
  read only when \<^verbatim>\<open>years[i]\<close> is not empty, and raises \<^verbatim>\<open>IndexError\<close> past the end.
\<close>

fun make_time_points :: "string list \<Rightarrow> string list \<Rightarrow> py_error + string list" where
  "make_time_points [] quarters = Inr []"
| "make_time_points (y # years') quarters =
     (if y = [] then make_time_points years' (tl quarters)
      else
        case quarters of
          [] \<Rightarrow> Inl IndexError
        | q # quarters' \<Rightarrow>
            if q = [] then make_time_points years' quarters'
            else
              (case split_first q of
                 Inl e \<Rightarrow> Inl e
               | Inr tok \<Rightarrow>
                   (case make_time_points years' quarters' of
                      Inl e \<Rightarrow> Inl e
                    | Inr tps \<Rightarrow> Inr ((y @ ''Q'' @ tok) # tps))))"

text \<open>A loop that appends the result of each step and stops at the first exception.\<close>

fun map_result :: "('a \<Rightarrow> 'e + 'b) \<Rightarrow> 'a list \<Rightarrow> 'e + 'b list" where
  "map_result f [] = Inr []"
| "map_result f (x # xs) =
     (case f x of
        Inl e \<Rightarrow> Inl e
      | Inr v \<Rightarrow> (case map_result f xs of Inl e \<Rightarrow> Inl e | Inr vs \<Rightarrow> Inr (v # vs)))"

text \<open>The data rows (lines 59 to 77).\<close>

fun city_loop :: "string list \<Rightarrow> string list list \<Rightarrow> city_table \<Rightarrow> py_error + city_table" where
  "city_loop time_points [] city_data = Inr city_data"
| "city_loop time_points (cells # rows) city_data =
     (if 1 < length cells
      then
        let city_name = strip (cells ! 0)
        in if city_name \<noteq> [] \<and> city_name \<noteq> areas_metropolitanas
           then
             (case map_result parse_cell (map strip (drop 1 cells)) of
                Inl e \<Rightarrow> Inl e
              | Inr values \<Rightarrow>
                  city_loop time_points rows
                    (if length values = length time_points
                     then city_data(city_name \<mapsto> map_of (zip time_points values))
                     else city_data))
           else city_loop time_points rows city_data
      else city_loop time_points rows city_data)"

text \<open>The body of the \<^verbatim>\<open>try\<close> block after the file is read (lines 42 to 80).\<close>

definition parse_table :: "string list list \<Rightarrow> py_error + (city_table \<times> string list)" where
  "parse_table rows =
     (if length rows \<le> 6 then Inl IndexError
      else
        let years' = map strip (drop 1 (rows ! 6))
        in if length rows \<le> 7 then Inl IndexError
           else
             let quarters = map strip (drop 1 (rows ! 7))
             in case make_time_points years' quarters of
                  Inl e \<Rightarrow> Inl e
                | Inr time_points \<Rightarrow>
                    (case city_loop time_points (drop 8 rows) Map.empty of
                       Inl e \<Rightarrow> Inl e
                     | Inr city_data \<Rightarrow> Inr (city_data, time_points)))"

subsection \<open>The sample data: \<^verbatim>\<open>create_sample_data\<close>\<close>

text \<open>
  \<^verbatim>\<open>np.random.uniform(a, b)\<close> draws from NumPy's global generator. The generator is the
  sequence \<open>g\<close> of its draws in \<open>[0, 1)\<close> and the number \<open>n\<close> of draws made so far; a function
  that draws returns the new count.
\<close>

definition uniform :: "(nat \<Rightarrow> real) \<Rightarrow> nat \<Rightarrow> real \<Rightarrow> real \<Rightarrow> real" where
  "uniform g k a b = a + (b - a) * g k"

fun str_of_nat :: "nat \<Rightarrow> string" where
  "str_of_nat n =
     (if n < 10 then [char_of (48 + n)]
      else str_of_nat (n div 10) @ [char_of (48 + n mod 10)])"

declare str_of_nat.simps [simp del]

definition ciudad_de_mexico :: string where
  "ciudad_de_mexico = ''Ciudad de M'' @ [CHR 0xE9] @ ''xico''"

definition ciudad_de_leon :: string where
  "ciudad_de_leon = ''Ciudad de Le'' @ [CHR 0xF3] @ ''n''"

definition sample_cities :: "string list" where
  "sample_cities =
     [ciudad_de_mexico, ''Ciudad de Guadalajara'', ''Ciudad de Monterrey'', ''Ciudad de Puebla'',
      ciudad_de_leon]"

definition sample_time_points :: "string list" where
  "sample_time_points =
     concat (map (\<lambda>y. map (\<lambda>q. str_of_nat y @ ''Q'' @ str_of_nat q) [1..<5]) [2015..<2021])"

text \<open>The values of one city; its draws are \<open>g k\<close>, \<open>g (k + 1)\<close> and so on.\<close>

definition sample_values :: "(nat \<Rightarrow> real) \<Rightarrow> nat \<Rightarrow> string \<Rightarrow> string \<Rightarrow> fl list" where
  "sample_values g k file_type city' =
     (let m = length sample_time_points
      in if contains file_type ''Employment''
         then map (\<lambda>i. Fin (uniform g (k + i) 50 65)) [0..<m]
         else if contains file_type ''salary''
         then map (\<lambda>i. Fin (uniform g (k + i) 30 50)) [0..<m]
         else if contains file_type ''Population''
         then
           let base = (if city' = ciudad_de_mexico then 19000000
                       else if city' \<in> set [''Ciudad de Guadalajara'', ''Ciudad de Monterrey'']
                       then 4000000 else 2000000)
           in map (\<lambda>i. Fin (base * (1 + 0.02 * (real i / real m))
                               * (1 + uniform g (k + i) (- 0.01) 0.01))) [0..<m]
         else map (\<lambda>i. Fin (uniform g (k + i) 50 100)) [0..<m])"

definition create_sample_data ::
  "(nat \<Rightarrow> real) \<Rightarrow> nat \<Rightarrow> string \<Rightarrow> (city_table \<times> string list) \<times> nat"
where
  "create_sample_data g n file_type =
     (let time_points = sample_time_points;
          m = length time_points;
          city_data =
            foldl (\<lambda>cd (j, city').
                cd(city' \<mapsto> map_of (zip time_points (sample_values g (n + j * m) file_type city'))))
              Map.empty (enumerate 0 sample_cities)
      in ((city_data, time_points), n + length sample_cities * m))"

subsection \<open>The parser\<close>

text \<open>
  \<^verbatim>\<open>try: body except Exception as e: handler\<close>. Every exception of the model is an
  \<^verbatim>\<open>Exception\<close>.
\<close>

definition try_except :: "('e + 'a) \<Rightarrow> ('e \<Rightarrow> 'e + 'a) \<Rightarrow> 'e + 'a" where
  "try_except body handler = (case body of Inl e \<Rightarrow> handler e | Inr v \<Rightarrow> Inr v)"

definition read_excel_html_table ::
  "(nat \<Rightarrow> real) \<Rightarrow> nat \<Rightarrow> string \<Rightarrow> py_error + string list list
     \<Rightarrow> py_error + ((city_table \<times> string list) \<times> nat)"
where
  "read_excel_html_table g n file_path file =
     try_except
       (case file of
          Inl e \<Rightarrow> Inl e
        | Inr rows \<Rightarrow> (case parse_table rows of Inl e \<Rightarrow> Inl e | Inr result \<Rightarrow> Inr (result, n)))
       (\<lambda>e. Inr (create_sample_data g n file_path))"

section \<open>The housing-index parser: the filter of \<^verbatim>\<open>read_housing_cost\<close>\<close>

text \<open>
  One row of the table \<^verbatim>\<open>pd.read_csv\<close> returns, with the four columns the parser reads:
  \<^verbatim>\<open>Global\<close>, the year (\<open>Anio\<close> here; the file spells it with a tilde on the n),
  \<^verbatim>\<open>Trimestre\<close> and \<^verbatim>\<open>Indice\<close>.
  A \<^verbatim>\<open>Global\<close> cell that holds no text (an empty field is read as NaN) is \<open>None\<close>.

  Line 154 keeps the rows whose \<^verbatim>\<open>Global\<close> matches the regular expression \<^verbatim>\<open>^ZM\<close>
  (\<^verbatim>\<open>str.contains\<close> searches, and \<^verbatim>\<open>^\<close> anchors the search at the start of the text). On a
  cell without text the match is NaN, and indexing with a mask that holds NaN raises
  \<^verbatim>\<open>ValueError\<close>.
\<close>

record shf_row =
  Global :: "string option"
  Anio :: int
  Trimestre :: int
  Indice :: fl

definition re_search_caret_ZM :: "string \<Rightarrow> bool" where
  "re_search_caret_ZM s = startswith s ''ZM''"

definition zm_data :: "shf_row list \<Rightarrow> py_error + shf_row list" where
  "zm_data data =
     (if list_ex (\<lambda>r. Global r = None) data then Inl ValueError
      else Inr (filter (\<lambda>r. case Global r of Some s \<Rightarrow> re_search_caret_ZM s | None \<Rightarrow> False) data))"

text \<open>The filter as the specification words it: the identifier starts with the three
  characters \<^verbatim>\<open>ZM \<close>, the last a space.\<close>

definition keeps_zm_space_spec :: "shf_row \<Rightarrow> bool" where
  "keeps_zm_space_spec r = (case Global r of Some s \<Rightarrow> startswith s ''ZM '' | None \<Rightarrow> False)"

section \<open>The reconciliation join: \<^verbatim>\<open>compile_data\<close>\<close>

text \<open>One row of the joined table (the dictionaries appended to \<^verbatim>\<open>result_data\<close>).\<close>

record unified =
  city :: string
  time_point :: string
  year :: int
  quarter :: int
  employment_rate :: fl
  hourly_salary :: fl
  population :: fl
  housing_index :: fl
  monthly_salary :: fl
  real_wage :: fl

text \<open>
  \<^verbatim>\<open>re.match(r'(\d{4})Q(\d)', tp)\<close>: four decimal digits, the letter Q and one decimal
  digit at the start of \<open>tp\<close>; whatever follows is ignored. The groups are read with
  \<^verbatim>\<open>int\<close>.
\<close>

fun re_match_tp :: "string \<Rightarrow> (int \<times> int) option" where
  "re_match_tp (a # b # c # d # q # e # rest) =
     (if is_digit a \<and> is_digit b \<and> is_digit c \<and> is_digit d \<and> q = CHR ''Q'' \<and> is_digit e
      then Some (int_of_digits [a, b, c, d], int_of_digits [e])
      else None)"
| "re_match_tp _ = None"

text \<open>
  \<^verbatim>\<open>all_cities\<close> is a Python \<^verbatim>\<open>set\<close> of strings. The loop \<^verbatim>\<open>for city in all_cities\<close>
  visits each member once, in an order that the interpreter's string hashing fixes (it is
  seeded per process), not the program. The model takes that order as the list \<open>order\<close>;
  \<open>iterates order S\<close> says that \<open>order\<close> is one way of visiting the set \<open>S\<close>.
\<close>

definition all_cities :: "city_table \<Rightarrow> city_table \<Rightarrow> city_table \<Rightarrow> string set" where
  "all_cities employment_data salary_data population_data =
     dom employment_data \<union> dom salary_data \<union> dom population_data"

definition iterates :: "'a list \<Rightarrow> 'a set \<Rightarrow> bool" where
  "iterates order S = (distinct order \<and> set order = S)"

text \<open>The housing index of a city at a time point (lines 246 to 254).\<close>

definition index_value_of :: "city_table \<Rightarrow> string \<Rightarrow> string \<Rightarrow> fl" where
  "index_value_of housing_cost_data city' tp =
     (let city_simple_name = py_replace ''Ciudad de '' [] city' in
      case housing_cost_data city_simple_name of
        Some housing_series \<Rightarrow> series_get housing_series tp
      | None \<Rightarrow>
          (case housing_cost_data city' of
             Some housing_series \<Rightarrow> series_get housing_series tp
           | None \<Rightarrow> NaN))"

definition unified_row ::
  "city_table \<Rightarrow> city_table \<Rightarrow> city_table \<Rightarrow> city_table \<Rightarrow> string \<Rightarrow> string \<Rightarrow> int \<Rightarrow> int \<Rightarrow> unified"
where
  "unified_row employment_data salary_data population_data housing_cost_data city' tp y q =
     (let emp_value = series_get (dict_get employment_data city') tp;
          salary_value = series_get (dict_get salary_data city') tp;
          pop_value = series_get (dict_get population_data city') tp;
          index_value = index_value_of housing_cost_data city' tp;
          monthly = (if \<not> isnan salary_value then fmul salary_value (Fin 160) else NaN);
          real = (if \<not> isnan monthly \<and> \<not> isnan index_value then fdiv monthly index_value else NaN)
      in \<lparr>city = city', time_point = tp, year = y, quarter = q,
          employment_rate = emp_value, hourly_salary = salary_value, population = pop_value,
          housing_index = index_value, monthly_salary = monthly, real_wage = real\<rparr>)"

definition city_rows ::
  "city_table \<Rightarrow> city_table \<Rightarrow> city_table \<Rightarrow> city_table \<Rightarrow> string list \<Rightarrow> string \<Rightarrow> unified list"
where
  "city_rows employment_data salary_data population_data housing_cost_data time_points city' =
     (if city' = areas_metropolitanas \<or> city' = [] then []
      else concat (map (\<lambda>tp.
             case re_match_tp tp of
               Some (y, q) \<Rightarrow>
                 [unified_row employment_data salary_data population_data housing_cost_data city' tp y q]
             | None \<Rightarrow> [])
           time_points))"

definition compile_data ::
  "string list \<Rightarrow> city_table \<Rightarrow> city_table \<Rightarrow> city_table \<Rightarrow> city_table \<Rightarrow> string list \<Rightarrow> unified list"
where
  "compile_data order employment_data salary_data population_data housing_cost_data time_points =
     concat (map (city_rows employment_data salary_data population_data housing_cost_data time_points)
       order)"

subsection \<open>The housing key as the specification words it\<close>

text \<open>
  The specification describes the first lookup key as the city name "with the
  \<^verbatim>\<open>Ciudad de \<close> prefix stripped". These two definitions follow that wording, for
  comparison with \<open>index_value_of\<close>, which follows the code.
\<close>

definition strip_prefix_spec :: "string \<Rightarrow> string \<Rightarrow> string" where
  "strip_prefix_spec p s = (if startswith s p then drop (length p) s else s)"

definition housing_index_spec :: "city_table \<Rightarrow> string \<Rightarrow> string \<Rightarrow> fl" where
  "housing_index_spec h c tp =
     (case h (strip_prefix_spec ''Ciudad de '' c) of
        Some hs \<Rightarrow> series_get hs tp
      | None \<Rightarrow> (case h c of Some hs \<Rightarrow> series_get hs tp | None \<Rightarrow> NaN))"

section \<open>The growth engine\<close>

subsection \<open>Mean by city and year\<close>

text \<open>
  \<^verbatim>\<open>data.groupby(['city', 'year']).agg({...: 'mean'}).reset_index()\<close>: one row per distinct
  pair of city and year, in ascending order of the pair (strings compare by code point,
  position by position), holding for each column the mean of the group's values that are
  not NaN, or NaN when there is none. The rows of a group keep the order they have in
  \<open>data\<close>. \<^verbatim>\<open>calculate_cagr\<close> aggregates three of the five columns the same way, and reads
  only those.
\<close>

definition mean_skipna :: "fl list \<Rightarrow> fl" where
  "mean_skipna xs =
     (let ys = filter (\<lambda>x. \<not> isnan x) xs
      in if ys = [] then NaN else fdiv (foldl fadd (Fin 0) ys) (Fin (real (length ys))))"

record yearly =
  y_city :: string
  y_year :: int
  y_employment_rate :: fl
  y_monthly_salary :: fl
  y_real_wage :: fl
  y_population :: fl
  y_housing_index :: fl

definition group_keys :: "unified list \<Rightarrow> (string \<times> int) list" where
  "group_keys data = sort (remdups (map (\<lambda>r. (city r, year r)) data))"

definition yearly_row :: "unified list \<Rightarrow> string \<times> int \<Rightarrow> yearly" where
  "yearly_row data k =
     (let g = filter (\<lambda>r. (city r, year r) = k) data
      in \<lparr>y_city = fst k, y_year = snd k,
          y_employment_rate = mean_skipna (map employment_rate g),
          y_monthly_salary = mean_skipna (map monthly_salary g),
          y_real_wage = mean_skipna (map real_wage g),
          y_population = mean_skipna (map population g),
          y_housing_index = mean_skipna (map housing_index g)\<rparr>)"

definition yearly_aggregate :: "unified list \<Rightarrow> yearly list" where
  "yearly_aggregate data = map (yearly_row data) (group_keys data)"

text \<open>\<^verbatim>\<open>Series.unique()\<close>: the distinct values in order of first appearance.\<close>

definition unique :: "'a list \<Rightarrow> 'a list" where
  "unique xs = rev (remdups (rev xs))"

subsection \<open>Year-over-year growth: \<^verbatim>\<open>calculate_growth_rates\<close>\<close>

record growth_record =
  g_city :: string
  g_year :: int
  avg_employment_rate :: fl
  avg_monthly_salary :: fl
  avg_real_wage :: fl
  avg_population :: fl
  avg_housing_index :: fl
  population_growth :: fl
  real_wage_growth :: fl
  nominal_wage_growth :: fl

text \<open>The conditional expression of lines 310 to 312, for one column.\<close>

definition growth_rate :: "fl \<Rightarrow> fl \<Rightarrow> fl" where
  "growth_rate curr_value prev_value =
     (if \<not> isnan prev_value \<and> fgt0 prev_value
      then fmul (fsub (fdiv curr_value prev_value) (Fin 1)) (Fin 100)
      else NaN)"

definition growth_row :: "string \<Rightarrow> yearly \<Rightarrow> yearly \<Rightarrow> growth_record" where
  "growth_row city' prev_year curr_year =
     \<lparr>g_city = city', g_year = y_year curr_year,
      avg_employment_rate = y_employment_rate curr_year,
      avg_monthly_salary = y_monthly_salary curr_year,
      avg_real_wage = y_real_wage curr_year,
      avg_population = y_population curr_year,
      avg_housing_index = y_housing_index curr_year,
      population_growth = growth_rate (y_population curr_year) (y_population prev_year),
      real_wage_growth = growth_rate (y_real_wage curr_year) (y_real_wage prev_year),
      nominal_wage_growth = growth_rate (y_monthly_salary curr_year) (y_monthly_salary prev_year)\<rparr>"

text \<open>
  The yearly rows of one city, sorted by year (line 304). \<^verbatim>\<open>sort_values\<close> need not be
  stable, but the years of one city are distinct after the aggregation, so every sort
  gives the same list.
\<close>

definition city_years :: "yearly list \<Rightarrow> string \<Rightarrow> yearly list" where
  "city_years yearly_data city' = sort_key y_year (filter (\<lambda>r. y_city r = city') yearly_data)"

text \<open>
  An empty \<open>data\<close> is a \<^verbatim>\<open>DataFrame\<close> built from an empty list: it has no columns, and
  grouping it by \<^verbatim>\<open>'city'\<close> raises \<^verbatim>\<open>KeyError\<close>.
\<close>

text \<open>The inner loop (lines 306 to 325): one record for each index from 1 on, from the
  rows at \<open>i - 1\<close> and \<open>i\<close>.\<close>

definition growth_rows :: "string \<Rightarrow> yearly list \<Rightarrow> growth_record list" where
  "growth_rows city' city_data =
     map (\<lambda>i. growth_row city' (city_data ! (i - 1)) (city_data ! i)) [1..<length city_data]"

definition calculate_growth_rates :: "unified list \<Rightarrow> py_error + growth_record list" where
  "calculate_growth_rates data =
     (if data = [] then Inl KeyError
      else
        let yearly_data = yearly_aggregate data
        in Inr (concat (map (\<lambda>city'. growth_rows city' (city_years yearly_data city'))
                  (unique (map y_city yearly_data)))))"

subsection \<open>Compound annual growth: \<^verbatim>\<open>calculate_cagr\<close>\<close>

text \<open>
  \<^verbatim>\<open>x ** y\<close> on floats: the special values of IEEE 754 \<^verbatim>\<open>pow\<close>, and the exact real
  power on finite arguments. A negative base with a fractional exponent gives NaN.
\<close>

definition is_int :: "real \<Rightarrow> bool" where
  "is_int y = (y = of_int \<lfloor>y\<rfloor>)"

fun fpow :: "fl \<Rightarrow> fl \<Rightarrow> fl" where
  "fpow x (Fin y) =
     (if y = 0 then Fin 1
      else case x of
        NaN \<Rightarrow> NaN
      | Fin b \<Rightarrow>
          if 0 < b then Fin (b powr y)
          else if b = 0 then (if 0 < y then Fin 0 else PInf)
          else if is_int y then Fin ((if odd \<lfloor>y\<rfloor> then - 1 else 1) * ((- b) powr y))
          else NaN
      | PInf \<Rightarrow> if 0 < y then PInf else Fin 0
      | NInf \<Rightarrow> if 0 < y then (if is_int y \<and> odd \<lfloor>y\<rfloor> then NInf else PInf) else Fin 0)"
| "fpow x NaN = (if x = Fin 1 then Fin 1 else NaN)"
| "fpow x PInf =
     (case x of
        NaN \<Rightarrow> NaN
      | Fin b \<Rightarrow> if \<bar>b\<bar> < 1 then Fin 0 else if \<bar>b\<bar> = 1 then Fin 1 else PInf
      | _ \<Rightarrow> PInf)"
| "fpow x NInf =
     (case x of
        NaN \<Rightarrow> NaN
      | Fin b \<Rightarrow> if \<bar>b\<bar> < 1 then PInf else if \<bar>b\<bar> = 1 then Fin 1 else Fin 0
      | _ \<Rightarrow> Fin 0)"

record cagr_record =
  c_city :: string
  start_year :: int
  end_year :: int
  years :: int
  population_cagr :: fl
  real_wage_cagr :: fl
  nominal_wage_cagr :: fl

text \<open>The conditional expression of lines 364 to 366, for one column; \<open>years'\<close> is a
  Python \<^verbatim>\<open>int\<close> and \<^verbatim>\<open>1/years\<close> a float.\<close>

definition cagr_rate :: "fl \<Rightarrow> fl \<Rightarrow> int \<Rightarrow> fl" where
  "cagr_rate last_value first_value years' =
     (if \<not> isnan first_value \<and> fgt0 first_value
      then fsub (fpow (fdiv last_value first_value) (fdiv (Fin 1) (Fin (of_int years')))) (Fin 1)
      else NaN)"

definition in_window :: "int \<Rightarrow> int \<Rightarrow> yearly \<Rightarrow> bool" where
  "in_window start_year' end_year' r = (start_year' \<le> y_year r \<and> y_year r \<le> end_year')"

text \<open>The body of the loop over the cities (lines 358 to 376); \<^verbatim>\<open>iloc[0]\<close> and
  \<^verbatim>\<open>iloc[-1]\<close> are read only when there are two rows or more.\<close>

definition cagr_rows :: "int \<Rightarrow> int \<Rightarrow> string \<Rightarrow> yearly list \<Rightarrow> cagr_record list" where
  "cagr_rows start_year' end_year' city' city_data =
     (if 2 \<le> length city_data
      then
        let first_year = city_data ! 0;
            last_year = last city_data;
            years' = (if start_year' < end_year' then end_year' - start_year' else 1)
        in [\<lparr>c_city = city', start_year = start_year', end_year = end_year',
             years = years',
             population_cagr =
               fmul (cagr_rate (y_population last_year) (y_population first_year) years')
                 (Fin 100),
             real_wage_cagr =
               fmul (cagr_rate (y_real_wage last_year) (y_real_wage first_year) years')
                 (Fin 100),
             nominal_wage_cagr =
               fmul (cagr_rate (y_monthly_salary last_year) (y_monthly_salary first_year)
                 years') (Fin 100)\<rparr>]
      else [])"

definition calculate_cagr :: "unified list \<Rightarrow> int \<Rightarrow> int \<Rightarrow> py_error + cagr_record list" where
  "calculate_cagr data start_year' end_year' =
     (if data = [] then Inl KeyError
      else
        let yearly_data = yearly_aggregate data;
            filtered_data = filter (in_window start_year' end_year') yearly_data
        in Inr (concat (map (\<lambda>city'.
                  cagr_rows start_year' end_year' city' (city_years filtered_data city'))
                (unique (map y_city filtered_data)))))"

section \<open>The pipeline: \<^verbatim>\<open>main\<close>\<close>

definition EMPLOYMENT_RATE_FILE :: string where
  "EMPLOYMENT_RATE_FILE = ''Employment rate by city.xls''"

definition HOURLY_SALARY_FILE :: string where
  "HOURLY_SALARY_FILE = ''Mean hourly salary by city.xls''"

definition POPULATION_FILE :: string where
  "POPULATION_FILE = ''Population by city.xls''"

text \<open>
  One run of \<^verbatim>\<open>main\<close>, up to the three tables it returns. What varies from one run to
  the next, on the same files, is the order \<open>order\<close> in which the set of cities is visited
  and the random generator (\<open>g\<close>, \<open>n\<close>). The three files of the tabular parser are given by
  the outcome of reading them; of the housing file, the table that \<^verbatim>\<open>read_housing_cost\<close>
  returns is given. Any exception inside \<^verbatim>\<open>main\<close> makes it return \<^verbatim>\<open>None\<close>.
\<close>

definition main ::
  "string list \<Rightarrow> (nat \<Rightarrow> real) \<Rightarrow> nat
     \<Rightarrow> py_error + string list list \<Rightarrow> py_error + string list list \<Rightarrow> py_error + string list list
     \<Rightarrow> city_table
     \<Rightarrow> (unified list \<times> growth_record list \<times> cagr_record list) option"
where
  "main order g n employment_file salary_file population_file housing_cost_data =
     (case read_excel_html_table g n EMPLOYMENT_RATE_FILE employment_file of
        Inl e \<Rightarrow> None
      | Inr ((employment_data, time_points), n1) \<Rightarrow>
     (case read_excel_html_table g n1 HOURLY_SALARY_FILE salary_file of
        Inl e \<Rightarrow> None
      | Inr ((salary_data, _), n2) \<Rightarrow>
     (case read_excel_html_table g n2 POPULATION_FILE population_file of
        Inl e \<Rightarrow> None
      | Inr ((population_data, _), n3) \<Rightarrow>
          let city_data =
                compile_data order employment_data salary_data population_data
                  housing_cost_data time_points
          in case calculate_growth_rates city_data of
               Inl e \<Rightarrow> None
             | Inr yearly_growth \<Rightarrow>
                 (case calculate_cagr city_data 2015 2020 of
                    Inl e \<Rightarrow> None
                  | Inr cagr_data \<Rightarrow> Some (city_data, yearly_growth, cagr_data)))))"

subsection \<open>A small source file\<close>

text \<open>Six rows before the headers, the row of years, the row of quarters, and two cities.\<close>

definition example_rows :: "string list list" where
  "example_rows =
     [[], [], [], [], [], [],
      [''Periodo'', ''2015'', ''2016''],
      [''Trimestre'', ''1 trim'', ''1 trim''],
      [''Toluca'', ''55,1'', ''56,0''],
      [''Tijuana'', ''60,2'', ''No aplica'']]"

definition example_table :: city_table where
  "example_table =
     [''Toluca'' \<mapsto> map_of [(''2015Q1'', Fin 55.1), (''2016Q1'', Fin 56)],
      ''Tijuana'' \<mapsto> map_of [(''2015Q1'', Fin 60.2), (''2016Q1'', NaN)]]"

subsection \<open>Two small joined tables\<close>

text \<open>
  Two cities over three and four quarters, as \<open>compile_data\<close> joins them; only the
  population source has values. In the first, Guadalajara's 2015 mean is 4,000,000 and its
  2016 mean 4,100,000. In the second, its means are 2,000,000 (2015), 16,000,000 (2016) and
  5 (2018).
\<close>

definition growth_example :: "unified list" where
  "growth_example =
     compile_data [''Monterrey'', ''Guadalajara'']
       [''Guadalajara'' \<mapsto> Map.empty] Map.empty
       [''Guadalajara'' \<mapsto> [''2015Q1'' \<mapsto> Fin 3900000, ''2015Q3'' \<mapsto> Fin 4100000,
                            ''2016Q1'' \<mapsto> Fin 4100000],
        ''Monterrey'' \<mapsto> [''2016Q1'' \<mapsto> Fin 10]]
       Map.empty
       [''2015Q1'', ''2015Q3'', ''2016Q1'']"

definition cagr_example :: "unified list" where
  "cagr_example =
     compile_data [''Monterrey'', ''Guadalajara'']
       [''Guadalajara'' \<mapsto> Map.empty] Map.empty
       [''Guadalajara'' \<mapsto> [''2015Q1'' \<mapsto> Fin 1000000, ''2015Q3'' \<mapsto> Fin 3000000,
                            ''2016Q1'' \<mapsto> Fin 16000000, ''2018Q1'' \<mapsto> Fin 5],
        ''Monterrey'' \<mapsto> [''2018Q1'' \<mapsto> Fin 10]]
       Map.empty
       [''2015Q1'', ''2015Q3'', ''2016Q1'', ''2018Q1'']"


section \<open>Properties of the tabular-source parser\<close>

subsection \<open>Cells\<close>

lemma unsigned_float_error: "unsigned_float s = Inl e \<Longrightarrow> e = ValueError"
  by (auto simp: unsigned_float_def split: if_splits option.splits prod.splits)

lemma py_float_error: "py_float s = Inl e \<Longrightarrow> e = ValueError"
  by (auto simp: py_float_def split: list.splits if_splits sum.splits dest: unsigned_float_error)

lemma parse_cell_total: "\<exists>v. parse_cell t = Inr v"
  by (auto simp: parse_cell_def split: sum.splits dest: py_float_error)

lemma map_result_parse_cell:
  "\<exists>vs. map_result parse_cell cells = Inr vs \<and> length vs = length cells"
proof (induction cells)
  case Nil
  then show ?case by simp
next
  case (Cons c cells)
  obtain v where "parse_cell c = Inr v" using parse_cell_total by blast
  with Cons show ?case by auto
qed

text \<open>The equations that evaluate \<open>parse_cell\<close> on a concrete text.\<close>

lemmas float_eval = parse_cell_def py_float_def strip_def py_isspace_def unsigned_float_def
  number_part_def digitpart_def exponent_part_def scale10_def to_lower_def is_digit_def
  startswith_def int_of_digits_def digit_val_def

text \<open>
  Claim C6. Parsing a cell never raises, whatever the text, and so a row of cells always
  yields one value per cell. The sentinel \<^verbatim>\<open>No aplica\<close> gives NaN (null); \<^verbatim>\<open>45,2\<close> gives
  45.2; every other text has its commas replaced by periods and is read by \<^verbatim>\<open>float\<close>,
  whose value is kept and whose failure gives NaN.
\<close>

theorem cell_parsing_total:
  "(\<forall>t. \<exists>v. parse_cell t = Inr v) \<and>
   (\<forall>cells. \<exists>vs. map_result parse_cell cells = Inr vs \<and> length vs = length cells) \<and>
   parse_cell ''No aplica'' = Inr NaN \<and>
   parse_cell ''45,2'' = Inr (Fin 45.2) \<and>
   (\<forall>t. t \<noteq> ''No aplica'' \<longrightarrow>
      parse_cell t =
        (case py_float (py_replace '','' ''.'' t) of Inl e \<Rightarrow> Inr NaN | Inr v \<Rightarrow> Inr v))"
proof (intro conjI allI impI)
  show "\<exists>v. parse_cell t = Inr v" for t by (rule parse_cell_total)
  show "\<exists>vs. map_result parse_cell cells = Inr vs \<and> length vs = length cells" for cells
    by (rule map_result_parse_cell)
  show "parse_cell ''No aplica'' = Inr NaN" by (simp add: parse_cell_def)
  show "parse_cell ''45,2'' = Inr (Fin 45.2)" by (simp add: float_eval)
  show "parse_cell t =
        (case py_float (py_replace '','' ''.'' t) of Inl e \<Rightarrow> Inr NaN | Inr v \<Rightarrow> Inr v)"
    if "t \<noteq> ''No aplica''" for t
    using that by (auto simp: parse_cell_def split: sum.splits dest: py_float_error)
qed

text \<open>A text that is no number: \<^verbatim>\<open>float('abc')\<close> raises \<^verbatim>\<open>ValueError\<close>, and the cell is
  null.\<close>

theorem cell_parsing_total_witness:
  "''abc'' \<noteq> ''No aplica'' \<and> py_float (py_replace '','' ''.'' ''abc'') = Inl ValueError \<and>
   parse_cell ''abc'' = Inr NaN"
proof -
  have ne: "''abc'' \<noteq> ''No aplica''" by simp
  have pf: "py_float (py_replace '','' ''.'' ''abc'') = Inl ValueError"
    by (simp add: float_eval)
  note t = cell_parsing_total
    [THEN conjunct2, THEN conjunct2, THEN conjunct2, THEN conjunct2, rule_format, OF ne]
  from t pf have "parse_cell ''abc'' = Inr NaN" by simp
  with ne pf show ?thesis by simp
qed

subsection \<open>Failure of the file\<close>

lemma create_sample_data_time_points:
  "snd (fst (create_sample_data g n file_type)) = sample_time_points"
  unfolding create_sample_data_def Let_def by simp

text \<open>
  Claim C5 says that a file that cannot be opened or parsed makes the parser fail, the
  failure reaching the caller, and that the fallback to synthetic data is not inside the
  parser. The code does the opposite (lines 82 to 86): at a file that cannot be opened,
  \<open>read_excel_html_table\<close> returns normally, with the table of \<open>create_sample_data\<close> and
  its 24 synthetic time points.
\<close>

theorem unreadable_file_returns_sample_data:
  "read_excel_html_table (\<lambda>k. 0) 0 ''Population by city.xls'' (Inl OSError)
     = Inr (create_sample_data (\<lambda>k. 0) 0 ''Population by city.xls'') \<and>
   snd (fst (create_sample_data (\<lambda>k. 0) 0 ''Population by city.xls'')) = sample_time_points"
  by (simp add: read_excel_html_table_def try_except_def create_sample_data_time_points)

text \<open>
  Claim C5, amended. The parser never fails: for every file that cannot be opened, or
  whose table cannot be parsed, it catches the exception itself and returns the synthetic
  data of \<open>create_sample_data\<close> to the caller; no failure is propagated.
\<close>

theorem parser_falls_back_inside:
  "\<not> isl (read_excel_html_table g n file_path file) \<and>
   ((case file of Inl e \<Rightarrow> True | Inr rows \<Rightarrow> isl (parse_table rows)) \<longrightarrow>
      read_excel_html_table g n file_path file = Inr (create_sample_data g n file_path))"
  by (auto simp: read_excel_html_table_def try_except_def split: sum.splits)

text \<open>A file that opens but holds no table row: \<^verbatim>\<open>rows[6]\<close> raises \<^verbatim>\<open>IndexError\<close>, and the
  parser returns the synthetic data.\<close>

theorem parser_falls_back_inside_witness:
  "isl (parse_table []) \<and>
   read_excel_html_table (\<lambda>k. 0) 0 ''Population by city.xls'' (Inr [])
     = Inr (create_sample_data (\<lambda>k. 0) 0 ''Population by city.xls'')"
proof -
  have p: "isl (parse_table [])" by (simp add: parse_table_def)
  then have "case (Inr [] :: py_error + string list list) of Inl e \<Rightarrow> True
             | Inr rows \<Rightarrow> isl (parse_table rows)"
    by simp
  with parser_falls_back_inside [of "\<lambda>k. 0" 0 "''Population by city.xls''" "Inr []"] p
  show ?thesis
    by blast
qed

section \<open>Properties of the housing-index filter\<close>

text \<open>
  Claim C8 says that the kept rows are those whose identifier starts with the three
  characters \<^verbatim>\<open>ZM \<close>. The code matches \<^verbatim>\<open>^ZM\<close>, without the space: a row identified
  \<^verbatim>\<open>ZMVM\<close> is kept, though it does not start with \<^verbatim>\<open>ZM \<close>.
\<close>

theorem zm_filter_keeps_without_space:
  "zm_data [\<lparr>Global = Some ''ZMVM'', Anio = 2015, Trimestre = 1, Indice = Fin 100\<rparr>]
     = Inr [\<lparr>Global = Some ''ZMVM'', Anio = 2015, Trimestre = 1, Indice = Fin 100\<rparr>] \<and>
   \<not> keeps_zm_space_spec
       \<lparr>Global = Some ''ZMVM'', Anio = 2015, Trimestre = 1, Indice = Fin 100\<rparr>"
  by (simp add: zm_data_def re_search_caret_ZM_def startswith_def keeps_zm_space_spec_def)

text \<open>
  Claim C8, amended. When every identifier cell holds text, the filter keeps exactly the
  rows whose identifier starts with the two characters \<^verbatim>\<open>ZM\<close>, in their order, and
  excludes every other row; no space after them is required.
\<close>

theorem zm_filter_two_characters:
  "list_all (\<lambda>r. Global r \<noteq> None) data \<longrightarrow>
     zm_data data = Inr (filter (\<lambda>r. take 2 (the (Global r)) = ''ZM'') data)"
proof
  assume a: "list_all (\<lambda>r. Global r \<noteq> None) data"
  then have "\<not> list_ex (\<lambda>r. Global r = None) data"
    by (simp add: list_all_iff list_ex_iff)
  moreover have
    "filter (\<lambda>r. case Global r of Some s \<Rightarrow> re_search_caret_ZM s | None \<Rightarrow> False) data
      = filter (\<lambda>r. take 2 (the (Global r)) = ''ZM'') data"
    using a
    by (intro filter_cong)
      (auto simp: list_all_iff re_search_caret_ZM_def startswith_def numeral_2_eq_2
        split: option.splits)
  ultimately show "zm_data data = Inr (filter (\<lambda>r. take 2 (the (Global r)) = ''ZM'') data)"
    by (simp add: zm_data_def)
qed

text \<open>Four rows: the national index, two metropolitan areas and a state.\<close>

theorem zm_filter_two_characters_witness:
  "zm_data
     [\<lparr>Global = Some ''Nacional'', Anio = 2015, Trimestre = 1, Indice = Fin 100\<rparr>,
      \<lparr>Global = Some ''ZM Guadalajara'', Anio = 2015, Trimestre = 1, Indice = Fin 101\<rparr>,
      \<lparr>Global = Some ''ZMVM'', Anio = 2015, Trimestre = 1, Indice = Fin 102\<rparr>,
      \<lparr>Global = Some ''Zacatecas'', Anio = 2015, Trimestre = 1, Indice = Fin 103\<rparr>]
   = Inr [\<lparr>Global = Some ''ZM Guadalajara'', Anio = 2015, Trimestre = 1, Indice = Fin 101\<rparr>,
          \<lparr>Global = Some ''ZMVM'', Anio = 2015, Trimestre = 1, Indice = Fin 102\<rparr>]"
  using zm_filter_two_characters
    [of "[\<lparr>Global = Some ''Nacional'', Anio = 2015, Trimestre = 1, Indice = Fin 100\<rparr>,
          \<lparr>Global = Some ''ZM Guadalajara'', Anio = 2015, Trimestre = 1, Indice = Fin 101\<rparr>,
          \<lparr>Global = Some ''ZMVM'', Anio = 2015, Trimestre = 1, Indice = Fin 102\<rparr>,
          \<lparr>Global = Some ''Zacatecas'', Anio = 2015, Trimestre = 1, Indice = Fin 103\<rparr>]"]
  by simp

section \<open>Properties of the join\<close>

lemma compile_data_rowD:
  assumes "r \<in> set (compile_data order e s p h tps)"
  shows "\<exists>c tp y q. c \<in> set order \<and> tp \<in> set tps \<and> re_match_tp tp = Some (y, q) \<and>
    c \<noteq> areas_metropolitanas \<and> c \<noteq> [] \<and> r = unified_row e s p h c tp y q"
proof -
  from assms obtain c where c: "c \<in> set order" and r: "r \<in> set (city_rows e s p h tps c)"
    by (auto simp: compile_data_def)
  from r have ne: "c \<noteq> areas_metropolitanas" "c \<noteq> []"
    by (auto simp: city_rows_def split: if_splits)
  with r obtain tp where tp: "tp \<in> set tps"
    and r': "r \<in> set (case re_match_tp tp of Some (y, q) \<Rightarrow> [unified_row e s p h c tp y q] | None \<Rightarrow> [])"
    by (auto simp: city_rows_def)
  then obtain y q where "re_match_tp tp = Some (y, q)" "r = unified_row e s p h c tp y q"
    by (cases "re_match_tp tp") auto
  with c ne tp show ?thesis by blast
qed

lemma row_fields:
  "city (unified_row e s p h c tp y q) = c"
  "time_point (unified_row e s p h c tp y q) = tp"
  "year (unified_row e s p h c tp y q) = y"
  "hourly_salary (unified_row e s p h c tp y q) = series_get (dict_get s c) tp"
  "housing_index (unified_row e s p h c tp y q) = index_value_of h c tp"
  "monthly_salary (unified_row e s p h c tp y q) =
     (if isnan (series_get (dict_get s c) tp) then NaN
      else fmul (series_get (dict_get s c) tp) (Fin 160))"
  "real_wage (unified_row e s p h c tp y q) =
     (if \<not> isnan (monthly_salary (unified_row e s p h c tp y q)) \<and> \<not> isnan (index_value_of h c tp)
      then fdiv (monthly_salary (unified_row e s p h c tp y q)) (index_value_of h c tp) else NaN)"
  by (simp_all add: unified_row_def Let_def)

text \<open>The equations that evaluate the join on a concrete input.\<close>

lemmas compile_eval =
  compile_data_def city_rows_def areas_metropolitanas_def is_digit_def unified_row_def
  series_get_def dict_get_def isnan_def Let_def index_value_of_def startswith_def
  int_of_digits_def digit_val_def inf_of_sign_def

subsection \<open>Monthly salary\<close>

text \<open>
  Claim C3. In every row that \<open>compile_data\<close> produces, \<open>monthly_salary\<close> is
  \<open>hourly_salary\<close> times 160 when \<open>hourly_salary\<close> is a value, and not-a-number (null)
  when \<open>hourly_salary\<close> is not-a-number. This holds for every visiting order of the cities
  and for all four source tables.
\<close>

theorem monthly_salary_is_hourly_times_160:
  "\<forall>r \<in> set (compile_data order e s p h tps).
     monthly_salary r = (if isnan (hourly_salary r) then NaN else fmul (hourly_salary r) (Fin 160))"
proof
  fix r assume "r \<in> set (compile_data order e s p h tps)"
  then obtain c tp y q where "r = unified_row e s p h c tp y q"
    using compile_data_rowD by blast
  then show "monthly_salary r =
      (if isnan (hourly_salary r) then NaN else fmul (hourly_salary r) (Fin 160))"
    by (simp add: row_fields)
qed

text \<open>
  The specification's example: an hourly salary of 42.0 gives a monthly salary of 6720.0;
  the quarter without a salary gives null.
\<close>

theorem monthly_salary_is_hourly_times_160_witness:
  "compile_data [''Ciudad de Puebla''] Map.empty
      [''Ciudad de Puebla'' \<mapsto> [''2015Q1'' \<mapsto> Fin 42]] Map.empty Map.empty
      [''2015Q1'', ''2015Q2'']
    = [\<lparr>city = ''Ciudad de Puebla'', time_point = ''2015Q1'', year = 2015, quarter = 1,
         employment_rate = NaN, hourly_salary = Fin 42, population = NaN, housing_index = NaN,
         monthly_salary = Fin 6720, real_wage = NaN\<rparr>,
       \<lparr>city = ''Ciudad de Puebla'', time_point = ''2015Q2'', year = 2015, quarter = 2,
         employment_rate = NaN, hourly_salary = NaN, population = NaN, housing_index = NaN,
         monthly_salary = NaN, real_wage = NaN\<rparr>]"
  using monthly_salary_is_hourly_times_160 [of "[''Ciudad de Puebla'']" Map.empty
      "[''Ciudad de Puebla'' \<mapsto> [''2015Q1'' \<mapsto> Fin 42]]" Map.empty Map.empty
      "[''2015Q1'', ''2015Q2'']"]
  by (simp add: compile_eval)

subsection \<open>Real wage\<close>

text \<open>
  Claim C4. In every row that \<open>compile_data\<close> produces, \<open>real_wage\<close> is not-a-number
  (null) whenever \<open>housing_index\<close> or \<open>monthly_salary\<close> is not-a-number, and is the
  quotient \<open>monthly_salary / housing_index\<close> otherwise.
\<close>

theorem real_wage_null_or_quotient:
  "\<forall>r \<in> set (compile_data order e s p h tps).
     real_wage r =
       (if isnan (housing_index r) \<or> isnan (monthly_salary r) then NaN
        else fdiv (monthly_salary r) (housing_index r))"
proof
  fix r assume "r \<in> set (compile_data order e s p h tps)"
  then obtain c tp y q where "r = unified_row e s p h c tp y q"
    using compile_data_rowD by blast
  then show "real_wage r =
       (if isnan (housing_index r) \<or> isnan (monthly_salary r) then NaN
        else fdiv (monthly_salary r) (housing_index r))"
    by (simp add: row_fields)
qed

text \<open>
  The specification's example: a monthly salary of 6720.0 over a housing index of 120.0 is a
  real wage of 56.0; the quarter without a housing index has a null real wage.
\<close>

theorem real_wage_null_or_quotient_witness:
  "compile_data [''Ciudad de Puebla''] Map.empty
      [''Ciudad de Puebla'' \<mapsto> [''2015Q1'' \<mapsto> Fin 42, ''2015Q2'' \<mapsto> Fin 42]] Map.empty
      [''Puebla'' \<mapsto> [''2015Q1'' \<mapsto> Fin 120]] [''2015Q1'', ''2015Q2'']
    = [\<lparr>city = ''Ciudad de Puebla'', time_point = ''2015Q1'', year = 2015, quarter = 1,
         employment_rate = NaN, hourly_salary = Fin 42, population = NaN, housing_index = Fin 120,
         monthly_salary = Fin 6720, real_wage = Fin 56\<rparr>,
       \<lparr>city = ''Ciudad de Puebla'', time_point = ''2015Q2'', year = 2015, quarter = 2,
         employment_rate = NaN, hourly_salary = Fin 42, population = NaN, housing_index = NaN,
         monthly_salary = Fin 6720, real_wage = NaN\<rparr>]"
  using real_wage_null_or_quotient [of "[''Ciudad de Puebla'']" Map.empty
      "[''Ciudad de Puebla'' \<mapsto> [''2015Q1'' \<mapsto> Fin 42, ''2015Q2'' \<mapsto> Fin 42]]" Map.empty
      "[''Puebla'' \<mapsto> [''2015Q1'' \<mapsto> Fin 120]]" "[''2015Q1'', ''2015Q2'']"]
  by (simp add: compile_eval)

text \<open>
  Claim C10. The division is guarded by the two null checks only. The claim says that with
  a housing index of zero the real wage is the quotient by zero and is "not null". The
  quotient part holds; the "not null" part fails when the monthly salary is zero as well,
  since \<open>0.0 / 0\<close> is not-a-number, the very value the pipeline uses for null.
\<close>

theorem real_wage_zero_over_zero_is_null:
  "compile_data [''Ciudad de Puebla''] Map.empty
      [''Ciudad de Puebla'' \<mapsto> [''2015Q1'' \<mapsto> Fin 0]] Map.empty
      [''Puebla'' \<mapsto> [''2015Q1'' \<mapsto> Fin 0]] [''2015Q1'']
    = [\<lparr>city = ''Ciudad de Puebla'', time_point = ''2015Q1'', year = 2015, quarter = 1,
         employment_rate = NaN, hourly_salary = Fin 0, population = NaN, housing_index = Fin 0,
         monthly_salary = Fin 0, real_wage = NaN\<rparr>]"
  by (simp add: compile_eval)

text \<open>
  Claim C10, amended. For every row whose \<open>monthly_salary\<close> is a value and whose
  \<open>housing_index\<close> is zero, \<open>real_wage\<close> is the unguarded quotient \<open>monthly_salary / 0\<close>:
  an infinity when the monthly salary is not zero, and not-a-number (null) when it is zero.
  The witness below reaches the branch: it divides 6720 by zero.
\<close>

theorem real_wage_zero_index_unguarded:
  "\<forall>r \<in> set (compile_data order e s p h tps).
     \<not> isnan (monthly_salary r) \<and> housing_index r = Fin 0 \<longrightarrow>
       real_wage r = fdiv (monthly_salary r) (Fin 0) \<and>
       (if monthly_salary r = Fin 0 then real_wage r = NaN
        else real_wage r = PInf \<or> real_wage r = NInf)"
proof (intro ballI impI)
  fix r assume "r \<in> set (compile_data order e s p h tps)"
    and a: "\<not> isnan (monthly_salary r) \<and> housing_index r = Fin 0"
  then obtain c tp y q where "r = unified_row e s p h c tp y q"
    using compile_data_rowD by blast
  with a have rw: "real_wage r = fdiv (monthly_salary r) (Fin 0)"
    by (auto simp: row_fields isnan_def split: if_splits)
  from a show "real_wage r = fdiv (monthly_salary r) (Fin 0) \<and>
       (if monthly_salary r = Fin 0 then real_wage r = NaN
        else real_wage r = PInf \<or> real_wage r = NInf)"
    unfolding rw by (cases "monthly_salary r") (auto simp: isnan_def inf_of_sign_def)
qed

theorem real_wage_zero_index_unguarded_witness:
  "compile_data [''Ciudad de Puebla''] Map.empty
      [''Ciudad de Puebla'' \<mapsto> [''2015Q1'' \<mapsto> Fin 42]] Map.empty
      [''Puebla'' \<mapsto> [''2015Q1'' \<mapsto> Fin 0]] [''2015Q1'']
    = [\<lparr>city = ''Ciudad de Puebla'', time_point = ''2015Q1'', year = 2015, quarter = 1,
         employment_rate = NaN, hourly_salary = Fin 42, population = NaN, housing_index = Fin 0,
         monthly_salary = Fin 6720, real_wage = PInf\<rparr>]"
  using real_wage_zero_index_unguarded [of "[''Ciudad de Puebla'']" Map.empty
      "[''Ciudad de Puebla'' \<mapsto> [''2015Q1'' \<mapsto> Fin 42]]" Map.empty
      "[''Puebla'' \<mapsto> [''2015Q1'' \<mapsto> Fin 0]]" "[''2015Q1'']"]
  by (simp add: compile_eval)

subsection \<open>Housing index lookup\<close>

lemma py_replace_absent: "\<not> contains s old \<Longrightarrow> py_replace old new s = s"
  by (induction old new s rule: py_replace.induct) auto

lemma py_replace_prefix:
  "old \<noteq> [] \<Longrightarrow> py_replace old new (old @ s) = new @ py_replace old new s"
  by (cases old) (auto simp: startswith_def)

lemma py_replace_strip_prefix:
  assumes "\<not> contains (strip_prefix_spec old s) old"
  shows "py_replace old [] s = strip_prefix_spec old s"
proof (cases "startswith s old")
  case True
  then have s: "s = old @ drop (length old) s"
    by (metis append_take_drop_id startswith_def)
  from assms True have nc: "\<not> contains (drop (length old) s) old"
    by (simp add: strip_prefix_spec_def)
  then have "old \<noteq> []"
    by (cases "drop (length old) s") (auto simp: startswith_def)
  then have "py_replace old [] (old @ drop (length old) s) = py_replace old [] (drop (length old) s)"
    by (simp add: py_replace_prefix)
  with s nc True show ?thesis
    by (simp add: py_replace_absent strip_prefix_spec_def)
next
  case False
  with assms show ?thesis
    by (simp add: strip_prefix_spec_def py_replace_absent)
qed

text \<open>
  Claim C7 says that the first key is the city name with the prefix \<^verbatim>\<open>Ciudad de \<close>
  stripped. The code calls \<^verbatim>\<open>city.replace('Ciudad de ', '')\<close>, which removes the text
  wherever it stands. For the city \<^verbatim>\<open>Gran Ciudad de Puebla\<close> and a housing table keyed
  \<^verbatim>\<open>Gran Puebla\<close>, the code finds the index 120; the two keys of the claim (the name has
  no such prefix, so both are the name itself) are absent, and the claim's answer is null.
\<close>

theorem housing_key_not_prefix_strip:
  "iterates [''Gran Ciudad de Puebla'']
     (all_cities [''Gran Ciudad de Puebla'' \<mapsto> [''2015Q1'' \<mapsto> Fin 55]] Map.empty Map.empty) \<and>
   compile_data [''Gran Ciudad de Puebla'']
      [''Gran Ciudad de Puebla'' \<mapsto> [''2015Q1'' \<mapsto> Fin 55]] Map.empty Map.empty
      [''Gran Puebla'' \<mapsto> [''2015Q1'' \<mapsto> Fin 120]] [''2015Q1'']
    = [\<lparr>city = ''Gran Ciudad de Puebla'', time_point = ''2015Q1'', year = 2015, quarter = 1,
         employment_rate = Fin 55, hourly_salary = NaN, population = NaN,
         housing_index = Fin 120, monthly_salary = NaN, real_wage = NaN\<rparr>] \<and>
   housing_index_spec [''Gran Puebla'' \<mapsto> [''2015Q1'' \<mapsto> Fin 120]]
      ''Gran Ciudad de Puebla'' ''2015Q1'' = NaN"
  by (simp add: compile_eval iterates_def all_cities_def housing_index_spec_def
      strip_prefix_spec_def)

text \<open>
  Claim C7, amended. For every row of the join, the housing index is resolved by trying
  exactly two keys in order: first the city name with every occurrence of \<^verbatim>\<open>Ciudad de \<close>
  removed (\<^verbatim>\<open>str.replace\<close>), then the unmodified city name; the series of the first key
  present in the housing map is read at the row's time point, and the index is null when
  neither key is present. Whenever the name holds no \<^verbatim>\<open>Ciudad de \<close> beyond a leading
  one, the first key is the prefix-stripped name and the lookup is the one the claim
  describes.
\<close>

theorem housing_index_two_keys:
  "\<forall>r \<in> set (compile_data order e s p h tps).
     housing_index r =
       (case h (py_replace ''Ciudad de '' [] (city r)) of
          Some hs \<Rightarrow> series_get hs (time_point r)
        | None \<Rightarrow>
            (case h (city r) of Some hs \<Rightarrow> series_get hs (time_point r) | None \<Rightarrow> NaN))
     \<and> (\<not> contains (strip_prefix_spec ''Ciudad de '' (city r)) ''Ciudad de '' \<longrightarrow>
          housing_index r = housing_index_spec h (city r) (time_point r))"
proof
  fix r assume "r \<in> set (compile_data order e s p h tps)"
  then obtain c tp y q where r: "r = unified_row e s p h c tp y q"
    using compile_data_rowD by blast
  have 1: "housing_index r =
       (case h (py_replace ''Ciudad de '' [] (city r)) of
          Some hs \<Rightarrow> series_get hs (time_point r)
        | None \<Rightarrow>
            (case h (city r) of Some hs \<Rightarrow> series_get hs (time_point r) | None \<Rightarrow> NaN))"
    by (simp add: r row_fields index_value_of_def split: option.splits)
  have 2: "housing_index r = housing_index_spec h (city r) (time_point r)"
    if "\<not> contains (strip_prefix_spec ''Ciudad de '' (city r)) ''Ciudad de ''"
    using py_replace_strip_prefix [OF that] unfolding 1 housing_index_spec_def by simp
  from 1 2 show "housing_index r =
       (case h (py_replace ''Ciudad de '' [] (city r)) of
          Some hs \<Rightarrow> series_get hs (time_point r)
        | None \<Rightarrow>
            (case h (city r) of Some hs \<Rightarrow> series_get hs (time_point r) | None \<Rightarrow> NaN))
     \<and> (\<not> contains (strip_prefix_spec ''Ciudad de '' (city r)) ''Ciudad de '' \<longrightarrow>
          housing_index r = housing_index_spec h (city r) (time_point r))"
    by blast
qed

text \<open>
  Four cities: the first key wins over the second (\<^verbatim>\<open>Puebla\<close> before
  \<^verbatim>\<open>Ciudad de Puebla\<close>), an inner occurrence is removed, no key is present, and only the
  unmodified name is present.
\<close>

theorem housing_index_two_keys_witness:
  "compile_data [''Ciudad de Puebla'', ''Gran Ciudad de Puebla'', ''Toluca'', ''Ciudad de Oaxaca'']
      [''Ciudad de Puebla'' \<mapsto> Map.empty, ''Gran Ciudad de Puebla'' \<mapsto> Map.empty,
       ''Toluca'' \<mapsto> Map.empty, ''Ciudad de Oaxaca'' \<mapsto> Map.empty] Map.empty Map.empty
      [''Puebla'' \<mapsto> [''2015Q1'' \<mapsto> Fin 120], ''Ciudad de Puebla'' \<mapsto> [''2015Q1'' \<mapsto> Fin 7],
       ''Gran Puebla'' \<mapsto> [''2015Q1'' \<mapsto> Fin 130],
       ''Ciudad de Oaxaca'' \<mapsto> [''2015Q1'' \<mapsto> Fin 90]] [''2015Q1'']
    = [\<lparr>city = ''Ciudad de Puebla'', time_point = ''2015Q1'', year = 2015, quarter = 1,
         employment_rate = NaN, hourly_salary = NaN, population = NaN, housing_index = Fin 120,
         monthly_salary = NaN, real_wage = NaN\<rparr>,
       \<lparr>city = ''Gran Ciudad de Puebla'', time_point = ''2015Q1'', year = 2015, quarter = 1,
         employment_rate = NaN, hourly_salary = NaN, population = NaN, housing_index = Fin 130,
         monthly_salary = NaN, real_wage = NaN\<rparr>,
       \<lparr>city = ''Toluca'', time_point = ''2015Q1'', year = 2015, quarter = 1,
         employment_rate = NaN, hourly_salary = NaN, population = NaN, housing_index = NaN,
         monthly_salary = NaN, real_wage = NaN\<rparr>,
       \<lparr>city = ''Ciudad de Oaxaca'', time_point = ''2015Q1'', year = 2015, quarter = 1,
         employment_rate = NaN, hourly_salary = NaN, population = NaN, housing_index = Fin 90,
         monthly_salary = NaN, real_wage = NaN\<rparr>]"
  using housing_index_two_keys
    [of "[''Ciudad de Puebla'', ''Gran Ciudad de Puebla'', ''Toluca'', ''Ciudad de Oaxaca'']"
      "[''Ciudad de Puebla'' \<mapsto> Map.empty, ''Gran Ciudad de Puebla'' \<mapsto> Map.empty,
        ''Toluca'' \<mapsto> Map.empty, ''Ciudad de Oaxaca'' \<mapsto> Map.empty]" Map.empty Map.empty
      "[''Puebla'' \<mapsto> [''2015Q1'' \<mapsto> Fin 120], ''Ciudad de Puebla'' \<mapsto> [''2015Q1'' \<mapsto> Fin 7],
        ''Gran Puebla'' \<mapsto> [''2015Q1'' \<mapsto> Fin 130],
        ''Ciudad de Oaxaca'' \<mapsto> [''2015Q1'' \<mapsto> Fin 90]]" "[''2015Q1'']"]
  by (simp add: compile_eval)

section \<open>Properties of the growth engine\<close>

subsection \<open>The yearly rows of one city\<close>

lemma group_keys_props:
  "sorted (group_keys d)" "distinct (group_keys d)"
  "set (group_keys d) = (\<lambda>r. (city r, year r)) ` set d"
  by (simp_all add: group_keys_def)

lemma sorted_snd_filter_fst:
  fixes ks :: "('a::linorder \<times> 'b::linorder) list"
  shows "sorted ks \<Longrightarrow> sorted (map snd (filter (\<lambda>k. fst k = c) ks))"
  by (induction ks) (auto simp: less_eq_prod_def)

lemma distinct_snd_filter_fst:
  "distinct ks \<Longrightarrow> distinct (map snd (filter (\<lambda>k. fst k = c) ks))"
  by (induction ks) (auto simp: image_iff prod_eq_iff)

lemma yearly_row_sel [simp]:
  "y_city (yearly_row d k) = fst k" "y_year (yearly_row d k) = snd k"
  by (simp_all add: yearly_row_def Let_def)

text \<open>Sorting the rows of one city by year changes nothing: the grouped rows are in the
  order of their keys already.\<close>

lemma city_years_map:
  assumes "sorted ks"
  shows "city_years (map (yearly_row d) ks) c = map (yearly_row d) (filter (\<lambda>k. fst k = c) ks)"
proof -
  let ?ks = "filter (\<lambda>k. fst k = c) ks"
  have f: "filter (\<lambda>r. y_city r = c) (map (yearly_row d) ks) = map (yearly_row d) ?ks"
    by (simp add: filter_map comp_def)
  have "sorted (map snd ?ks)"
    by (rule sorted_snd_filter_fst [OF assms])
  then have "sorted (map y_year (map (yearly_row d) ?ks))"
    by (simp add: comp_def)
  then show ?thesis
    unfolding city_years_def f by (rule sort_key_id_if_sorted)
qed

lemma city_years_map_years:
  assumes "sorted ks" "distinct ks"
  shows "map y_year (city_years (map (yearly_row d) ks) c) =
     sorted_list_of_set (snd ` {k \<in> set ks. fst k = c})"
proof -
  let ?ks = "filter (\<lambda>k. fst k = c) ks"
  have s: "sorted (map snd ?ks)" by (rule sorted_snd_filter_fst [OF assms(1)])
  have d: "distinct (map snd ?ks)" by (rule distinct_snd_filter_fst [OF assms(2)])
  have e: "set (map snd ?ks) = snd ` {k \<in> set ks. fst k = c}"
    by auto
  have "map snd ?ks = sorted_list_of_set (snd ` {k \<in> set ks. fst k = c})"
    using s d e
    by (metis (no_types, lifting) sorted_list_of_set.idem_if_sorted_distinct)
  then show ?thesis by (simp add: city_years_map [OF assms(1)] comp_def)
qed

lemma city_years_map_nth:
  assumes "sorted ks" "i < length (city_years (map (yearly_row d) ks) c)"
  shows "city_years (map (yearly_row d) ks) c ! i
      = yearly_row d (c, y_year (city_years (map (yearly_row d) ks) c ! i))"
proof -
  let ?ks = "filter (\<lambda>k. fst k = c) ks"
  from assms have i: "i < length ?ks" by (simp add: city_years_map)
  then have "?ks ! i \<in> set ?ks" by (rule nth_mem)
  then have "fst (?ks ! i) = c" by simp
  then have "?ks ! i = (c, snd (?ks ! i))" by (simp add: prod_eq_iff)
  then show ?thesis using i by (simp add: city_years_map [OF assms(1)])
qed

lemma city_years_absent:
  assumes "c \<notin> set (map y_city yd)"
  shows "city_years yd c = []"
proof -
  from assms have "filter (\<lambda>r. y_city r = c) yd = []"
    by (auto simp: filter_empty_conv)
  then show ?thesis by (simp add: city_years_def)
qed

lemma filter_window_aggregate:
  "filter (in_window s e) (yearly_aggregate d)
     = map (yearly_row d) (filter (\<lambda>k. s \<le> snd k \<and> snd k \<le> e) (group_keys d))"
  by (simp add: yearly_aggregate_def filter_map comp_def in_window_def)

text \<open>The records of one key in a table built city by city.\<close>

lemma filter_concat_by_key:
  assumes "distinct cs" and "\<And>c' g. c' \<in> set cs \<Longrightarrow> g \<in> set (f c') \<Longrightarrow> key g = c'"
  shows "filter (\<lambda>g. key g = c) (concat (map f cs)) = (if c \<in> set cs then f c else [])"
  using assms
proof (induction cs)
  case Nil
  then show ?case by simp
next
  case (Cons a cs)
  have fa: "filter (\<lambda>g. key g = c) (f a) = (if a = c then f a else [])"
    using Cons.prems(2) [of a] by (auto simp: filter_empty_conv intro: filter_True)
  have IH: "filter (\<lambda>g. key g = c) (concat (map f cs)) = (if c \<in> set cs then f c else [])"
    using Cons by auto
  show ?case using Cons.prems(1) by (auto simp: fa IH)
qed

lemma unique_props [simp]: "distinct (unique xs)" "set (unique xs) = set xs"
  by (simp_all add: unique_def)

subsection \<open>Year-over-year growth\<close>

lemma growth_filter_city:
  assumes "data \<noteq> []" "calculate_growth_rates data = Inr out"
  shows "filter (\<lambda>g. g_city g = c) out = growth_rows c (city_years (yearly_aggregate data) c)"
proof -
  let ?yd = "yearly_aggregate data"
  let ?f = "\<lambda>c. growth_rows c (city_years ?yd c)"
  from assms have out: "out = concat (map ?f (unique (map y_city ?yd)))"
    by (simp add: calculate_growth_rates_def Let_def)
  have "filter (\<lambda>g. g_city g = c) (concat (map ?f (unique (map y_city ?yd))))
      = (if c \<in> set (unique (map y_city ?yd)) then ?f c else [])"
    by (rule filter_concat_by_key) (auto simp: growth_rows_def growth_row_def)
  moreover have "?f c = []" if "c \<notin> set (unique (map y_city ?yd))"
    using that city_years_absent [of c ?yd] by (simp add: growth_rows_def)
  ultimately show ?thesis unfolding out by auto
qed

text \<open>
  Claim C1. On a non-empty joined table \<open>data\<close>, \<open>calculate_growth_rates\<close> returns a table
  \<open>out\<close> such that, for every city \<open>c\<close>, with \<open>rows\<close> the yearly rows of \<open>c\<close> as the code
  sorts them and \<open>gs\<close> the records of \<open>c\<close> in \<open>out\<close>, in order:
  \<^item> the years of \<open>rows\<close> are the years of \<open>c\<close> in \<open>data\<close>, each once, ascending, and each
    row is the mean aggregate of its city and year;
  \<^item> \<open>gs\<close> has one record for each consecutive pair of \<open>rows\<close>, so none when \<open>c\<close> has
    fewer than two yearly rows;
  \<^item> the record of the pair \<open>(rows ! i, rows ! Suc i)\<close> carries the later year, and each
    of its growth fields (population, real wage, monthly salary) is
    \<open>((curr / prev) - 1) * 100\<close> when the earlier value is not NaN and greater than zero,
    and NaN (null) otherwise.
  (An empty table has no columns, and the grouping raises \<^verbatim>\<open>KeyError\<close>.)
\<close>

theorem yoy_growth_consecutive_pairs:
  assumes "data \<noteq> []"
  shows "\<exists>out. calculate_growth_rates data = Inr out \<and>
    (\<forall>c. let rows = city_years (yearly_aggregate data) c;
             gs = filter (\<lambda>g. g_city g = c) out
         in map y_year rows = sorted_list_of_set (year ` {r \<in> set data. city r = c}) \<and>
            (\<forall>i < length rows. rows ! i = yearly_row data (c, y_year (rows ! i))) \<and>
            length gs = length rows - 1 \<and>
            (length rows < 2 \<longrightarrow> gs = []) \<and>
            (\<forall>i < length rows - 1.
               g_year (gs ! i) = y_year (rows ! Suc i) \<and>
               population_growth (gs ! i) =
                 (if \<not> isnan (y_population (rows ! i)) \<and> fgt0 (y_population (rows ! i))
                  then fmul (fsub (fdiv (y_population (rows ! Suc i)) (y_population (rows ! i)))
                              (Fin 1)) (Fin 100)
                  else NaN) \<and>
               real_wage_growth (gs ! i) =
                 (if \<not> isnan (y_real_wage (rows ! i)) \<and> fgt0 (y_real_wage (rows ! i))
                  then fmul (fsub (fdiv (y_real_wage (rows ! Suc i)) (y_real_wage (rows ! i)))
                              (Fin 1)) (Fin 100)
                  else NaN) \<and>
               nominal_wage_growth (gs ! i) =
                 (if \<not> isnan (y_monthly_salary (rows ! i)) \<and> fgt0 (y_monthly_salary (rows ! i))
                  then fmul (fsub (fdiv (y_monthly_salary (rows ! Suc i))
                                    (y_monthly_salary (rows ! i))) (Fin 1)) (Fin 100)
                  else NaN)))"
proof -
  from assms obtain out where out: "calculate_growth_rates data = Inr out"
    by (simp add: calculate_growth_rates_def Let_def)
  have set_eq: "snd ` {k \<in> set (group_keys data). fst k = c}
      = year ` {r \<in> set data. city r = c}" for c
    by (auto simp: group_keys_props(3) image_iff)
  have 1: "map y_year (city_years (yearly_aggregate data) c)
          = sorted_list_of_set (year ` {r \<in> set data. city r = c})" for c
    unfolding yearly_aggregate_def
      city_years_map_years [OF group_keys_props(1) group_keys_props(2)] set_eq ..
  have 2: "city_years (yearly_aggregate data) c ! i
      = yearly_row data (c, y_year (city_years (yearly_aggregate data) c ! i))"
    if "i < length (city_years (yearly_aggregate data) c)" for c i
    using that unfolding yearly_aggregate_def
    by (rule city_years_map_nth [OF group_keys_props(1)])
  note 5 = growth_filter_city [OF assms out]
  show ?thesis
    apply (rule exI [of _ out])
    apply (simp only: Let_def 5)
    apply (intro conjI allI impI out 1)
    using 2 apply blast
      apply (simp_all add: growth_rows_def growth_row_def growth_rate_def nth_map)
    done
qed

lemma growth_example_value:
  "calculate_growth_rates growth_example =
     Inr [\<lparr>g_city = ''Guadalajara'', g_year = 2016, avg_employment_rate = NaN,
            avg_monthly_salary = NaN, avg_real_wage = NaN, avg_population = Fin 4100000,
            avg_housing_index = NaN, population_growth = Fin (5 / 2), real_wage_growth = NaN,
            nominal_wage_growth = NaN\<rparr>,
          \<lparr>g_city = ''Monterrey'', g_year = 2016, avg_employment_rate = NaN,
            avg_monthly_salary = NaN, avg_real_wage = NaN, avg_population = Fin 10,
            avg_housing_index = NaN, population_growth = NaN, real_wage_growth = NaN,
            nominal_wage_growth = NaN\<rparr>]"
  unfolding growth_example_def by code_simp

lemma growth_example_nonempty: "growth_example \<noteq> []"
  unfolding growth_example_def by code_simp

text \<open>
  The specification's example: a yearly population of 4,000,000 in 2015 and 4,100,000 in
  2016 is a growth of 2.5 in 2016. Monterrey has no population in 2015, so its growth in
  2016 is null.
\<close>

theorem yoy_growth_consecutive_pairs_witness:
  "growth_example \<noteq> [] \<and>
   calculate_growth_rates growth_example =
     Inr [\<lparr>g_city = ''Guadalajara'', g_year = 2016, avg_employment_rate = NaN,
            avg_monthly_salary = NaN, avg_real_wage = NaN, avg_population = Fin 4100000,
            avg_housing_index = NaN, population_growth = Fin (5 / 2), real_wage_growth = NaN,
            nominal_wage_growth = NaN\<rparr>,
          \<lparr>g_city = ''Monterrey'', g_year = 2016, avg_employment_rate = NaN,
            avg_monthly_salary = NaN, avg_real_wage = NaN, avg_population = Fin 10,
            avg_housing_index = NaN, population_growth = NaN, real_wage_growth = NaN,
            nominal_wage_growth = NaN\<rparr>]"
proof -
  from yoy_growth_consecutive_pairs [OF growth_example_nonempty]
  obtain out where "calculate_growth_rates growth_example = Inr out"
    by blast
  with growth_example_value growth_example_nonempty show ?thesis
    by simp
qed

subsection \<open>Compound annual growth\<close>

lemma cagr_filter_city:
  assumes "data \<noteq> []" "calculate_cagr data s e = Inr out"
  shows "filter (\<lambda>g. c_city g = c) out =
     cagr_rows s e c (city_years (filter (in_window s e) (yearly_aggregate data)) c)"
proof -
  let ?fd = "filter (in_window s e) (yearly_aggregate data)"
  let ?f = "\<lambda>c. cagr_rows s e c (city_years ?fd c)"
  from assms have out: "out = concat (map ?f (unique (map y_city ?fd)))"
    by (simp add: calculate_cagr_def Let_def)
  have "filter (\<lambda>g. c_city g = c) (concat (map ?f (unique (map y_city ?fd))))
      = (if c \<in> set (unique (map y_city ?fd)) then ?f c else [])"
    by (rule filter_concat_by_key) (auto simp: cagr_rows_def Let_def split: if_splits)
  moreover have "?f c = []" if "c \<notin> set (unique (map y_city ?fd))"
    using that city_years_absent [of c ?fd] by (simp add: cagr_rows_def)
  ultimately show ?thesis unfolding out by auto
qed

text \<open>
  Claim C2. On a non-empty joined table \<open>data\<close> and a window from \<open>s\<close> to \<open>e\<close>,
  \<open>calculate_cagr\<close> returns a table \<open>out\<close> such that, for every city \<open>c\<close>, with \<open>rows\<close>
  the yearly rows of \<open>c\<close> inside the window as the code sorts them, \<open>rs\<close> the records of
  \<open>c\<close> in \<open>out\<close> and \<open>span = max (e - s) 1\<close>:
  \<^item> the years of \<open>rows\<close> are the years of \<open>c\<close> in \<open>data\<close> that lie in \<open>[s, e]\<close>, each
    once, ascending, so \<open>hd rows\<close> is the earliest and \<open>last rows\<close> the latest of them,
    whether or not they are \<open>s\<close> and \<open>e\<close>; each row is the mean aggregate of its city and
    year;
  \<^item> with fewer than two such rows the city has no record, and with two or more it has
    exactly one;
  \<^item> each value of that record (population, real wage, monthly salary) is
    \<open>((last / first) ** (1 / span) - 1) * 100\<close> when the first value is not NaN and greater
    than zero, and NaN (null) otherwise.
  (An empty table has no columns, and the grouping raises \<^verbatim>\<open>KeyError\<close>.)
\<close>

theorem cagr_first_last_in_window:
  assumes "data \<noteq> []"
  shows "\<exists>out. calculate_cagr data s e = Inr out \<and>
    (\<forall>c. let rows = city_years (filter (in_window s e) (yearly_aggregate data)) c;
             rs = filter (\<lambda>g. c_city g = c) out;
             span = max (e - s) 1
         in map y_year rows =
              sorted_list_of_set {y \<in> year ` {r \<in> set data. city r = c}. s \<le> y \<and> y \<le> e} \<and>
            (\<forall>i < length rows. rows ! i = yearly_row data (c, y_year (rows ! i))) \<and>
            (length rows < 2 \<longrightarrow> rs = []) \<and>
            (2 \<le> length rows \<longrightarrow>
               length rs = 1 \<and> years (hd rs) = span \<and>
               population_cagr (hd rs) =
                 (if \<not> isnan (y_population (hd rows)) \<and> fgt0 (y_population (hd rows))
                  then fmul (fsub (fpow (fdiv (y_population (last rows)) (y_population (hd rows)))
                                    (Fin (1 / real_of_int span))) (Fin 1)) (Fin 100)
                  else NaN) \<and>
               real_wage_cagr (hd rs) =
                 (if \<not> isnan (y_real_wage (hd rows)) \<and> fgt0 (y_real_wage (hd rows))
                  then fmul (fsub (fpow (fdiv (y_real_wage (last rows)) (y_real_wage (hd rows)))
                                    (Fin (1 / real_of_int span))) (Fin 1)) (Fin 100)
                  else NaN) \<and>
               nominal_wage_cagr (hd rs) =
                 (if \<not> isnan (y_monthly_salary (hd rows)) \<and> fgt0 (y_monthly_salary (hd rows))
                  then fmul (fsub (fpow (fdiv (y_monthly_salary (last rows))
                                          (y_monthly_salary (hd rows)))
                                    (Fin (1 / real_of_int span))) (Fin 1)) (Fin 100)
                  else NaN)))"
proof -
  let ?ks = "filter (\<lambda>k. s \<le> snd k \<and> snd k \<le> e) (group_keys data)"
  have sk: "sorted ?ks" and dk: "distinct ?ks"
    using group_keys_props(1,2) [of data] by (simp_all add: sorted_wrt_filter)
  have fw: "filter (in_window s e) (yearly_aggregate data) = map (yearly_row data) ?ks"
    by (rule filter_window_aggregate)
  from assms obtain out where out: "calculate_cagr data s e = Inr out"
    by (simp add: calculate_cagr_def Let_def)
  have set_eq: "snd ` {k \<in> set ?ks. fst k = c}
      = {y \<in> year ` {r \<in> set data. city r = c}. s \<le> y \<and> y \<le> e}" for c
    by (auto simp: group_keys_props(3) image_iff)
  have 1: "map y_year (city_years (filter (in_window s e) (yearly_aggregate data)) c)
      = sorted_list_of_set {y \<in> year ` {r \<in> set data. city r = c}. s \<le> y \<and> y \<le> e}" for c
    unfolding fw city_years_map_years [OF sk dk] set_eq ..
  have 2: "city_years (filter (in_window s e) (yearly_aggregate data)) c ! i
      = yearly_row data
          (c, y_year (city_years (filter (in_window s e) (yearly_aggregate data)) c ! i))"
    if "i < length (city_years (filter (in_window s e) (yearly_aggregate data)) c)" for c i
    using that unfolding fw by (rule city_years_map_nth [OF sk])
  have 3: "max (e - s) 1 = (if s < e then e - s else 1)" by simp
  have 4: "rows ! 0 = hd rows" if "2 \<le> length rows" for rows :: "yearly list"
    using that by (cases rows) auto
  note 5 = cagr_filter_city [OF assms out]
  show ?thesis
    apply (rule exI [of _ out])
    apply (simp only: Let_def 5 3)
    apply (intro conjI allI impI out 1)
    using 2 apply blast
         apply (simp_all add: cagr_rows_def Let_def cagr_rate_def 4)
    done
qed

lemma cagr_example_yearly:
  "yearly_aggregate cagr_example =
     [\<lparr>y_city = ''Guadalajara'', y_year = 2015, y_employment_rate = NaN,
        y_monthly_salary = NaN, y_real_wage = NaN, y_population = Fin 2000000,
        y_housing_index = NaN\<rparr>,
      \<lparr>y_city = ''Guadalajara'', y_year = 2016, y_employment_rate = NaN,
        y_monthly_salary = NaN, y_real_wage = NaN, y_population = Fin 16000000,
        y_housing_index = NaN\<rparr>,
      \<lparr>y_city = ''Guadalajara'', y_year = 2018, y_employment_rate = NaN,
        y_monthly_salary = NaN, y_real_wage = NaN, y_population = Fin 5,
        y_housing_index = NaN\<rparr>,
      \<lparr>y_city = ''Monterrey'', y_year = 2015, y_employment_rate = NaN,
        y_monthly_salary = NaN, y_real_wage = NaN, y_population = NaN,
        y_housing_index = NaN\<rparr>,
      \<lparr>y_city = ''Monterrey'', y_year = 2016, y_employment_rate = NaN,
        y_monthly_salary = NaN, y_real_wage = NaN, y_population = NaN,
        y_housing_index = NaN\<rparr>,
      \<lparr>y_city = ''Monterrey'', y_year = 2018, y_employment_rate = NaN,
        y_monthly_salary = NaN, y_real_wage = NaN, y_population = Fin 10,
        y_housing_index = NaN\<rparr>]"
  unfolding cagr_example_def by code_simp

lemma cagr_example_nonempty: "cagr_example \<noteq> []"
  unfolding cagr_example_def by code_simp

lemma cube_root_8: "(8::real) powr (1 / 3) = 2"
proof -
  have "(8::real) = 2 powr 3" by simp
  then have "(8::real) powr (1 / 3) = (2 powr 3) powr (1 / 3)" by simp
  also have "\<dots> = 2" by (simp add: powr_powr)
  finally show ?thesis .
qed

lemma cagr_example_value:
  "calculate_cagr cagr_example 2014 2017 =
     Inr [\<lparr>c_city = ''Guadalajara'', start_year = 2014, end_year = 2017, years = 3,
            population_cagr = Fin 100, real_wage_cagr = NaN, nominal_wage_cagr = NaN\<rparr>,
          \<lparr>c_city = ''Monterrey'', start_year = 2014, end_year = 2017, years = 3,
            population_cagr = NaN, real_wage_cagr = NaN, nominal_wage_cagr = NaN\<rparr>]"
  by (simp add: calculate_cagr_def cagr_example_nonempty cagr_example_yearly Let_def
      in_window_def unique_def city_years_def cagr_rows_def cagr_rate_def isnan_def fsub_def
      cube_root_8)

text \<open>
  The window 2014 to 2017 holds the years 2015 and 2016 of each city, neither of them a
  boundary year: the record divides the 2016 mean by the 2015 mean and takes the root of
  the span 3 (not of the one year between the two rows), \<open>(8 ** (1/3) - 1) * 100 = 100\<close>.
  The year 2018 lies outside. Monterrey has no population in 2015, so its value is null.
\<close>

theorem cagr_first_last_in_window_witness:
  "cagr_example \<noteq> [] \<and>
   calculate_cagr cagr_example 2014 2017 =
     Inr [\<lparr>c_city = ''Guadalajara'', start_year = 2014, end_year = 2017, years = 3,
            population_cagr = Fin 100, real_wage_cagr = NaN, nominal_wage_cagr = NaN\<rparr>,
          \<lparr>c_city = ''Monterrey'', start_year = 2014, end_year = 2017, years = 3,
            population_cagr = NaN, real_wage_cagr = NaN, nominal_wage_cagr = NaN\<rparr>]"
proof -
  from cagr_first_last_in_window [OF cagr_example_nonempty, of 2014 2017]
  obtain out where "calculate_cagr cagr_example 2014 2017 = Inr out"
    by blast
  with cagr_example_value cagr_example_nonempty show ?thesis
    by simp
qed

section \<open>Two runs of the pipeline\<close>

lemma example_rows_parse:
  "parse_table example_rows = Inr (example_table, [''2015Q1'', ''2016Q1''])"
  by (simp add: parse_table_def example_rows_def example_table_def split_first_def
      areas_metropolitanas_def float_eval)

lemma city_rows_city: "r \<in> set (city_rows e s p h tps c) \<Longrightarrow> city r = c"
  by (auto simp: city_rows_def row_fields split: if_splits option.splits)

lemma compile_filter_city:
  assumes "distinct order"
  shows "filter (\<lambda>r. city r = c) (compile_data order e s p h tps)
     = (if c \<in> set order then city_rows e s p h tps c else [])"
  unfolding compile_data_def
  by (rule filter_concat_by_key [OF assms]) (rule city_rows_city)

lemma compile_mset:
  assumes "mset order1 = mset order2"
  shows "mset (compile_data order1 e s p h tps) = mset (compile_data order2 e s p h tps)"
proof -
  have "mset (concat (map f xs)) = sum_mset (image_mset (\<lambda>x. mset (f x)) (mset xs))"
    for f :: "string \<Rightarrow> unified list" and xs
    by (induction xs) auto
  then show ?thesis using assms by (simp add: compile_data_def)
qed

lemma group_keys_set_cong:
  assumes "set d1 = set d2"
  shows "group_keys d1 = group_keys d2"
proof -
  have "group_keys d = sorted_list_of_set (set (map (\<lambda>r. (city r, year r)) d))" for d
    unfolding group_keys_def by (simp only: sorted_list_of_set_sort_remdups)
  with assms show ?thesis by simp
qed

lemma yearly_row_cong:
  assumes "\<And>c. filter (\<lambda>r. city r = c) d1 = filter (\<lambda>r. city r = c) d2"
  shows "yearly_row d1 k = yearly_row d2 k"
proof -
  have h: "filter (\<lambda>r. (city r, year r) = k) d
      = filter (\<lambda>r. year r = snd k) (filter (\<lambda>r. city r = fst k) d)" for d
    by (simp add: prod_eq_iff)
  have "filter (\<lambda>r. (city r, year r) = k) d1 = filter (\<lambda>r. (city r, year r) = k) d2"
    unfolding h by (simp only: assms)
  then show ?thesis by (simp only: yearly_row_def)
qed

lemma yearly_aggregate_cong:
  assumes "set d1 = set d2"
    and "\<And>c. filter (\<lambda>r. city r = c) d1 = filter (\<lambda>r. city r = c) d2"
  shows "yearly_aggregate d1 = yearly_aggregate d2"
  unfolding yearly_aggregate_def group_keys_set_cong [OF assms(1)]
  using yearly_row_cong [OF assms(2)] by simp

lemma growth_engine_cong:
  assumes "set d1 = set d2"
    and "\<And>c. filter (\<lambda>r. city r = c) d1 = filter (\<lambda>r. city r = c) d2"
  shows "calculate_growth_rates d1 = calculate_growth_rates d2"
    and "calculate_cagr d1 s e = calculate_cagr d2 s e"
proof -
  from assms(1) have "d1 = [] \<longleftrightarrow> d2 = []" by (metis set_empty)
  then show "calculate_growth_rates d1 = calculate_growth_rates d2"
    and "calculate_cagr d1 s e = calculate_cagr d2 s e"
    by (simp_all add: calculate_growth_rates_def calculate_cagr_def
        yearly_aggregate_cong [OF assms])
qed

text \<open>A run on three files that parse.\<close>

lemma main_parsed:
  assumes "parse_table erows = Inr (ed, tps)" "parse_table srows = Inr (sd, stps)"
    "parse_table prows = Inr (pd, ptps)"
  shows "main order g n (Inr erows) (Inr srows) (Inr prows) h =
     (case calculate_growth_rates (compile_data order ed sd pd h tps) of
        Inl e \<Rightarrow> None
      | Inr yearly_growth \<Rightarrow>
          (case calculate_cagr (compile_data order ed sd pd h tps) 2015 2020 of
             Inl e \<Rightarrow> None
           | Inr cagr_data \<Rightarrow>
               Some (compile_data order ed sd pd h tps, yearly_growth, cagr_data)))"
  using assms by (simp add: main_def read_excel_html_table_def try_except_def Let_def)

text \<open>
  Claim C9, amended. Take two runs of \<open>main\<close> on the same three source files, each parsed
  without fallback, and the same housing table; the runs may visit the set of cities in
  different orders and have different random generators. Then both runs fail, or both
  return tables such that: the joined tables hold the same rows the same number of times,
  and the rows of each city stand in the same order in both (only the order of the cities
  differs); the growth tables are equal, row order included; the CAGR tables are equal,
  row order included.
\<close>

theorem two_runs_same_up_to_city_order:
  assumes "parse_table erows = Inr (ed, tps)" "parse_table srows = Inr (sd, stps)"
    "parse_table prows = Inr (pd, ptps)"
    and "iterates order1 (all_cities ed sd pd)" "iterates order2 (all_cities ed sd pd)"
  shows "(main order1 g1 n1 (Inr erows) (Inr srows) (Inr prows) h = None \<and>
          main order2 g2 n2 (Inr erows) (Inr srows) (Inr prows) h = None) \<or>
         (\<exists>cd1 cd2 yg cg.
            main order1 g1 n1 (Inr erows) (Inr srows) (Inr prows) h = Some (cd1, yg, cg) \<and>
            main order2 g2 n2 (Inr erows) (Inr srows) (Inr prows) h = Some (cd2, yg, cg) \<and>
            mset cd1 = mset cd2 \<and>
            (\<forall>c. filter (\<lambda>r. city r = c) cd1 = filter (\<lambda>r. city r = c) cd2))"
proof -
  let ?cd1 = "compile_data order1 ed sd pd h tps"
  let ?cd2 = "compile_data order2 ed sd pd h tps"
  from assms(4,5) have d: "distinct order1" "distinct order2" and s: "set order1 = set order2"
    by (simp_all add: iterates_def)
  then have m: "mset order1 = mset order2"
    by (simp add: set_eq_iff_mset_eq_distinct)
  have ms: "mset ?cd1 = mset ?cd2" by (rule compile_mset [OF m])
  then have st: "set ?cd1 = set ?cd2" by (rule mset_eq_setD)
  have f: "filter (\<lambda>r. city r = c) ?cd1 = filter (\<lambda>r. city r = c) ?cd2" for c
    by (simp add: compile_filter_city d s)
  have g: "calculate_growth_rates ?cd1 = calculate_growth_rates ?cd2"
    and c: "calculate_cagr ?cd1 2015 2020 = calculate_cagr ?cd2 2015 2020"
    using growth_engine_cong [OF st f] by simp_all
  show ?thesis
    unfolding main_parsed [OF assms(1-3)] g c
    using ms f by (auto split: sum.splits)
qed


lemma example_cities:
  "iterates [''Toluca'', ''Tijuana''] (all_cities example_table example_table example_table)"
  "iterates [''Tijuana'', ''Toluca''] (all_cities example_table example_table example_table)"
  by (auto simp: iterates_def all_cities_def example_table_def)

text \<open>
  Claim C9 says that two runs on identical files give identical tables, row order
  included. The join visits a Python \<^verbatim>\<open>set\<close> of city names (lines 224 and 230), whose
  order is not fixed by the program. On the same three files, the run that visits Toluca
  first and the run that visits Tijuana first return joined tables with their rows in
  different orders.
\<close>

theorem joined_table_order_varies:
  "parse_table example_rows = Inr (example_table, [''2015Q1'', ''2016Q1'']) \<and>
   iterates [''Toluca'', ''Tijuana''] (all_cities example_table example_table example_table) \<and>
   iterates [''Tijuana'', ''Toluca''] (all_cities example_table example_table example_table) \<and>
   map_option (\<lambda>t. map city (fst t))
     (main [''Toluca'', ''Tijuana''] (\<lambda>k. 0) 0
        (Inr example_rows) (Inr example_rows) (Inr example_rows) Map.empty)
     = Some [''Toluca'', ''Toluca'', ''Tijuana'', ''Tijuana''] \<and>
   map_option (\<lambda>t. map city (fst t))
     (main [''Tijuana'', ''Toluca''] (\<lambda>k. 0) 0
        (Inr example_rows) (Inr example_rows) (Inr example_rows) Map.empty)
     = Some [''Tijuana'', ''Tijuana'', ''Toluca'', ''Toluca'']"
proof -
  note m = main_parsed [OF example_rows_parse example_rows_parse example_rows_parse]
  have 1: "map_option (\<lambda>t. map city (fst t))
     (main [''Toluca'', ''Tijuana''] (\<lambda>k. 0) 0
        (Inr example_rows) (Inr example_rows) (Inr example_rows) Map.empty)
     = Some [''Toluca'', ''Toluca'', ''Tijuana'', ''Tijuana'']"
    unfolding m
    by (simp add: calculate_growth_rates_def calculate_cagr_def Let_def compile_data_def
        city_rows_def areas_metropolitanas_def is_digit_def row_fields)
  have 2: "map_option (\<lambda>t. map city (fst t))
     (main [''Tijuana'', ''Toluca''] (\<lambda>k. 0) 0
        (Inr example_rows) (Inr example_rows) (Inr example_rows) Map.empty)
     = Some [''Tijuana'', ''Tijuana'', ''Toluca'', ''Toluca'']"
    unfolding m
    by (simp add: calculate_growth_rates_def calculate_cagr_def Let_def compile_data_def
        city_rows_def areas_metropolitanas_def is_digit_def row_fields)
  from example_rows_parse example_cities 1 2 show ?thesis by simp
qed

theorem two_runs_same_up_to_city_order_witness:
  "parse_table example_rows = Inr (example_table, [''2015Q1'', ''2016Q1'']) \<and>
   iterates [''Toluca'', ''Tijuana''] (all_cities example_table example_table example_table) \<and>
   iterates [''Tijuana'', ''Toluca''] (all_cities example_table example_table example_table) \<and>
   map_option snd
     (main [''Toluca'', ''Tijuana''] (\<lambda>k. 0) 0
        (Inr example_rows) (Inr example_rows) (Inr example_rows) Map.empty)
   = map_option snd
     (main [''Tijuana'', ''Toluca''] (\<lambda>k. 1 / 2) 7
        (Inr example_rows) (Inr example_rows) (Inr example_rows) Map.empty)"
proof -
  from two_runs_same_up_to_city_order [OF example_rows_parse example_rows_parse example_rows_parse example_cities,
      of "\<lambda>k. 0" 0 Map.empty "\<lambda>k. 1 / 2" 7]
  have "map_option snd
     (main [''Toluca'', ''Tijuana''] (\<lambda>k. 0) 0
        (Inr example_rows) (Inr example_rows) (Inr example_rows) Map.empty)
   = map_option snd
     (main [''Tijuana'', ''Toluca''] (\<lambda>k. 1 / 2) 7
        (Inr example_rows) (Inr example_rows) (Inr example_rows) Map.empty)"
    by auto
  with example_rows_parse example_cities show ?thesis by simp
qed


end
